theory Spec2Isabelle
  imports Main "HOL-Library.Word" "HOL-Library.State_Monad"
begin

section \<open>JavaScript values used by the client\<close>

text \<open>
  A JavaScript string is a sequence of 16-bit code units. \<open>length\<close>, \<open>substring\<close>,
  \<open>startsWith\<close> and \<open>replace\<close> count code units and copy them without looking at
  what they are, so the strings the client only compares, cuts and concatenates
  (endpoints, URLs, identifiers, cursors, messages) are modelled as \<^typ>\<open>string\<close>, a
  \<^typ>\<open>char\<close> standing for a code unit. \<open>encodeURIComponent\<close> does look at the code
  units: the text handed to it is a list of 16-bit words (\<open>utf16\<close> below), any code unit
  from 0 to \<open>0xFFFF\<close>, and its result is ASCII.
\<close>

definition startsWith :: "string \<Rightarrow> string \<Rightarrow> bool" where
  "startsWith s p = (take (length p) s = p)"

text \<open>\<open>s.replace(pat, rep)\<close> with a string pattern: only the first occurrence is replaced.\<close>

fun replace :: "string \<Rightarrow> string \<Rightarrow> string \<Rightarrow> string" where
  "replace [] pat rep = (if pat = [] then rep else [])"
| "replace (c # cs) pat rep =
     (if startsWith (c # cs) pat then rep @ drop (length pat) (c # cs)
      else c # replace cs pat rep)"

text \<open>\<open>s.includes(p)\<close>: \<open>p\<close> occurs somewhere in \<open>s\<close>.\<close>

fun str_includes :: "string \<Rightarrow> string \<Rightarrow> bool" where
  "str_includes [] p = (p = [])"
| "str_includes (c # cs) p = (startsWith (c # cs) p \<or> str_includes cs p)"

definition substring :: "string \<Rightarrow> nat \<Rightarrow> nat \<Rightarrow> string" where
  "substring s i j = take (max i j - min i j) (drop (min i j) s)"

fun join :: "string \<Rightarrow> string list \<Rightarrow> string" where
  "join sep [] = []"
| "join sep [x] = x"
| "join sep (x # y # ys) = x @ sep @ join sep (y # ys)"

definition bool_to_string :: "bool \<Rightarrow> string" where
  "bool_to_string b = (if b then ''true'' else ''false'')"

subsection \<open>Numbers\<close>

definition digit_char :: "nat \<Rightarrow> char" where
  "digit_char d = ''0123456789'' ! d"

fun digits :: "nat \<Rightarrow> string" where
  "digits n = (if n < 10 then [digit_char n] else digits (n div 10) @ [digit_char (n mod 10)])"

declare digits.simps [simp del]

text \<open>
  The client does two things with a number: it tests it for truthiness and it converts
  it to a string in a template literal. Both are determined by what ECMAScript's
  \<open>Number::toString\<close> reads off a number: whether it is \<open>NaN\<close>, an infinity or finite,
  its sign, and for a finite number other than zero the integers \<open>s\<close>, \<open>k\<close> and \<open>n\<close>
  with \<open>k\<close> as small as possible such that the number is \<open>s \<times> 10^(n - k)\<close> and \<open>s\<close> has
  \<open>k\<close> digits. \<open>Finite neg s n\<close> is the number with the sign \<open>neg\<close> whose digits are
  those of \<open>s\<close> without its trailing zeros and whose exponent is \<open>n\<close>; \<open>s = 0\<close> is
  zero. Every double is one of these values.
\<close>

datatype js_number =
    NaN
  | Infinity bool
  | Finite bool nat int

definition number_truthy :: "js_number \<Rightarrow> bool" where
  "number_truthy x = (case x of NaN \<Rightarrow> False | Infinity neg \<Rightarrow> True | Finite neg s n \<Rightarrow> s \<noteq> 0)"

definition sig_digits :: "nat \<Rightarrow> string" where
  "sig_digits s = rev (dropWhile (\<lambda>c. c = CHR ''0'') (rev (digits s)))"

definition exponent_part :: "int \<Rightarrow> string" where
  "exponent_part e = CHR ''e'' # (if e < 0 then CHR ''-'' else CHR ''+'') # digits (nat \<bar>e\<bar>)"

text \<open>Steps 6 to 10 of \<open>Number::toString\<close> for the digits \<open>ds\<close> and the exponent \<open>n\<close>.\<close>

definition finite_toString :: "string \<Rightarrow> int \<Rightarrow> string" where
  "finite_toString ds n =
     (let k = int (length ds) in
      if k \<le> n \<and> n \<le> 21 then ds @ replicate (nat (n - k)) CHR ''0''
      else if 0 < n \<and> n \<le> 21 then take (nat n) ds @ ''.'' @ drop (nat n) ds
      else if - 6 < n \<and> n \<le> 0 then ''0.'' @ replicate (nat (- n)) CHR ''0'' @ ds
      else if k = 1 then ds @ exponent_part (n - 1)
      else take 1 ds @ ''.'' @ drop 1 ds @ exponent_part (n - 1))"

fun Number_toString :: "js_number \<Rightarrow> string" where
  "Number_toString NaN = ''NaN''"
| "Number_toString (Infinity neg) = (if neg then ''-Infinity'' else ''Infinity'')"
| "Number_toString (Finite neg s n) =
     (if s = 0 then ''0''
      else (if neg then ''-'' else []) @ finite_toString (sig_digits s) n)"

text \<open>The number an integer literal denotes.\<close>

definition js_int :: "int \<Rightarrow> js_number" where
  "js_int i = Finite (i < 0) (nat \<bar>i\<bar>) (int (length (digits (nat \<bar>i\<bar>))))"

subsection \<open>\<open>encodeURIComponent\<close>\<close>

type_synonym utf16 = "16 word list"

text \<open>A thrown value: an \<open>Error\<close> with its message, the \<open>TypeError\<close> of reading a
  property of \<open>null\<close> (its text depends on the engine), or the \<open>URIError\<close> of
  \<open>encodeURIComponent\<close>.\<close>

datatype js_error =
    Error string
  | TypeError
  | URIError

definition hex_upper :: "nat \<Rightarrow> char" where
  "hex_upper d = ''0123456789ABCDEF'' ! d"

definition hex_lower :: "nat \<Rightarrow> char" where
  "hex_lower d = ''0123456789abcdef'' ! d"

definition uri_unreserved :: "char list" where
  "uri_unreserved =
     ''ABCDEFGHIJKLMNOPQRSTUVWXYZabcdefghijklmnopqrstuvwxyz0123456789-_.!~*()'' @ [CHR 0x27]"

definition percent_byte :: "nat \<Rightarrow> string" where
  "percent_byte b = [CHR ''%'', hex_upper (b div 16), hex_upper (b mod 16)]"

text \<open>The UTF-8 octets of a code point.\<close>

definition utf8 :: "nat \<Rightarrow> nat list" where
  "utf8 cp =
     (if cp < 0x80 then [cp]
      else if cp < 0x800 then [0xC0 + cp div 0x40, 0x80 + cp mod 0x40]
      else if cp < 0x10000 then
        [0xE0 + cp div 0x1000, 0x80 + (cp div 0x40) mod 0x40, 0x80 + cp mod 0x40]
      else
        [0xF0 + cp div 0x40000, 0x80 + (cp div 0x1000) mod 0x40,
         0x80 + (cp div 0x40) mod 0x40, 0x80 + cp mod 0x40])"

definition percent_encode :: "nat \<Rightarrow> string" where
  "percent_encode cp = concat (map percent_byte (utf8 cp))"

definition then_text :: "string \<Rightarrow> js_error + string \<Rightarrow> js_error + string" where
  "then_text a r = (case r of Inl e \<Rightarrow> Inl e | Inr b \<Rightarrow> Inr (a @ b))"

text \<open>
  ECMAScript's \<open>Encode\<close> with the unreserved set of \<open>encodeURIComponent\<close>: an unreserved
  code unit is copied; any other is read as a code point, a leading surrogate together
  with the trailing surrogate that follows it, and written as the percent-encoded
  octets of its UTF-8 form. A surrogate without its partner throws a \<open>URIError\<close>.
\<close>

fun encodeURIComponent :: "utf16 \<Rightarrow> js_error + string" where
  "encodeURIComponent [] = Inr []"
| "encodeURIComponent (c # cs) =
     (let n = unat c in
      if n < 0x80 \<and> char_of n \<in> set uri_unreserved then
        then_text [char_of n] (encodeURIComponent cs)
      else if n < 0xD800 \<or> 0xE000 \<le> n then
        then_text (percent_encode n) (encodeURIComponent cs)
      else if n < 0xDC00 then
        (case cs of
           [] \<Rightarrow> Inl URIError
         | d # ds \<Rightarrow>
             if 0xDC00 \<le> unat d \<and> unat d < 0xE000 then
               then_text
                 (percent_encode (0x10000 + (n - 0xD800) * 0x400 + (unat d - 0xDC00)))
                 (encodeURIComponent ds)
             else Inl URIError)
      else Inl URIError)"

subsection \<open>JSON values\<close>

datatype json =
    JNull
  | JBool bool
  | JNum js_number
  | JStr string
  | JArr "json list"
  | JObj "(string \<times> json) list"

fun truthy :: "json \<Rightarrow> bool" where
  "truthy JNull = False"
| "truthy (JBool b) = b"
| "truthy (JNum x) = number_truthy x"
| "truthy (JStr s) = (s \<noteq> [])"
| "truthy (JArr xs) = True"
| "truthy (JObj kvs) = True"

fun typeof :: "json \<Rightarrow> string" where
  "typeof JNull = ''object''"
| "typeof (JBool b) = ''boolean''"
| "typeof (JNum x) = ''number''"
| "typeof (JStr s) = ''string''"
| "typeof (JArr xs) = ''object''"
| "typeof (JObj kvs) = ''object''"

text \<open>
  \<open>JObj kvs\<close> is the object built by defining the properties \<open>kvs\<close> one after the
  other, as an object literal and \<open>JSON.parse\<close> do: a key defined twice keeps its
  first place and its last value, and the own properties are listed with the array
  indices first, in ascending order, then the other keys in the order of definition.
\<close>

definition is_index :: "string \<Rightarrow> bool" where
  "is_index k =
     (k \<noteq> [] \<and> list_all (\<lambda>c. c \<in> set ''0123456789'') k
      \<and> (length k = 1 \<or> hd k \<noteq> CHR ''0'')
      \<and> foldl (\<lambda>acc c. 10 * acc + (of_char c - 48)) (0::nat) k < 4294967295)"

definition index_value :: "string \<Rightarrow> nat" where
  "index_value k = foldl (\<lambda>acc c. 10 * acc + (of_char c - 48)) (0::nat) k"

definition own_properties :: "(string \<times> 'a) list \<Rightarrow> (string \<times> 'a) list" where
  "own_properties kvs =
     (let keys = rev (remdups (rev (map fst kvs)));
          ordered = sort_key index_value (filter is_index keys)
                    @ filter (\<lambda>k. \<not> is_index k) keys
      in concat (map (\<lambda>k. case map_of (rev kvs) k of None \<Rightarrow> [] | Some v \<Rightarrow> [(k, v)]) ordered))"

text \<open>Reading a property: \<open>None\<close> is \<open>undefined\<close>. Only a plain object carries the
  properties of its JSON text.\<close>

fun get_property :: "json \<Rightarrow> string \<Rightarrow> json option" where
  "get_property (JObj kvs) k = map_of (rev kvs) k"
| "get_property v k = None"

text \<open>The string conversion of a template literal, \<open>`${v}`\<close>.\<close>

fun to_String :: "json \<Rightarrow> string" where
  "to_String JNull = ''null''"
| "to_String (JBool b) = bool_to_string b"
| "to_String (JNum x) = Number_toString x"
| "to_String (JStr s) = s"
| "to_String (JArr xs) =
     join '','' (map (\<lambda>x. case x of JNull \<Rightarrow> [] | _ \<Rightarrow> to_String x) xs)"
| "to_String (JObj kvs) = ''[object Object]''"

definition dquote :: char where
  "dquote = CHR 0x22"

definition backslash :: char where
  "backslash = CHR 0x5C"

definition json_escape :: "char \<Rightarrow> string" where
  "json_escape c =
     (let n = (of_char c :: nat) in
      if c = dquote then [backslash, dquote]
      else if c = backslash then [backslash, backslash]
      else if n = 8 then [backslash, CHR ''b'']
      else if n = 9 then [backslash, CHR ''t'']
      else if n = 10 then [backslash, CHR ''n'']
      else if n = 12 then [backslash, CHR ''f'']
      else if n = 13 then [backslash, CHR ''r'']
      else if n < 32 then [backslash, CHR ''u'', CHR ''0'', CHR ''0'', hex_lower (n div 16), hex_lower (n mod 16)]
      else [c])"

definition json_quote :: "string \<Rightarrow> string" where
  "json_quote s = dquote # concat (map json_escape s) @ [dquote]"

fun JSON_stringify :: "json \<Rightarrow> string" where
  "JSON_stringify JNull = ''null''"
| "JSON_stringify (JBool b) = bool_to_string b"
| "JSON_stringify (JNum x) =
     (case x of Finite neg s n \<Rightarrow> Number_toString x | _ \<Rightarrow> ''null'')"
| "JSON_stringify (JStr s) = json_quote s"
| "JSON_stringify (JArr xs) = ''['' @ join '','' (map JSON_stringify xs) @ '']''"
| "JSON_stringify (JObj kvs) =
     ''{'' @ join '',''
        (map (\<lambda>(k, s). json_quote k @ '':'' @ s)
           (own_properties (map (\<lambda>(k, v). (k, JSON_stringify v)) kvs))) @ ''}''"

section \<open>The request client (\<open>src/api.ts\<close>)\<close>

definition API_REGIONS_US :: string where
  "API_REGIONS_US = ''us''"

definition API_REGIONS :: "(string \<times> string) list" where
  "API_REGIONS =
     [(''US'', API_REGIONS_US), (''EU'', ''eu''), (''AU'', ''au''), (''ME'', ''me''), (''IN'', ''in'')]"

record KongApiOptions =
  opt_apiKey :: "string option"
  opt_apiRegion :: "string option"

record process_env =
  KONNECT_REGION :: "string option"
  KONNECT_ACCESS_TOKEN :: "string option"

record KongApi =
  baseUrl :: string
  apiKey :: string

text \<open>\<open>a || b\<close> on strings that may be \<open>undefined\<close>: the empty string is falsy too.\<close>

definition or_else :: "string option \<Rightarrow> string option \<Rightarrow> string option" where
  "or_else a b = (case a of Some s \<Rightarrow> if s \<noteq> [] then Some s else b | None \<Rightarrow> b)"

definition or_default :: "string option \<Rightarrow> string \<Rightarrow> string" where
  "or_default a d = (case a of Some s \<Rightarrow> if s \<noteq> [] then s else d | None \<Rightarrow> d)"

definition credential_warning :: string where
  "credential_warning = ''Warning: KONNECT_ACCESS_TOKEN not set in environment. API calls will fail.''"

text \<open>The constructor returns the client and the lines it wrote with \<open>console.error\<close>.\<close>

definition KongApi_constructor :: "KongApiOptions \<Rightarrow> process_env \<Rightarrow> KongApi \<times> string list" where
  "KongApi_constructor options env =
     (let apiRegion = or_default (or_else (opt_apiRegion options) (KONNECT_REGION env)) API_REGIONS_US;
          this_baseUrl = ''https://'' @ apiRegion @ ''.api.konghq.com/v2'';
          this_apiKey = or_default (or_else (opt_apiKey options) (KONNECT_ACCESS_TOKEN env)) []
      in (\<lparr>baseUrl = this_baseUrl, apiKey = this_apiKey\<rparr>,
          if this_apiKey = [] then [credential_warning] else []))"

subsection \<open>The transport\<close>

text \<open>
  The request configuration handed to \<open>axios\<close>. \<open>cfg_data = None\<close> is \<open>data: undefined\<close>:
  no body is sent.
\<close>

record AxiosRequestConfig =
  cfg_method :: string
  cfg_url :: string
  cfg_headers :: "(string \<times> string) list"
  cfg_data :: "json option"

record AxiosResponse =
  resp_status :: int
  resp_data :: json

text \<open>
  The error \<open>axios\<close> rejects with: \<open>err_response\<close> is set when the server answered,
  \<open>err_request\<close> when the request was sent.
\<close>

record AxiosError =
  err_message :: string
  err_response :: "AxiosResponse option"
  err_request :: bool

text \<open>What happens to one request on the wire, and how \<open>axios\<close> settles the promise:
  with its default \<open>validateStatus\<close> a status outside \<open>200..299\<close> rejects. The status
  of a response is the integer of its status line.\<close>

datatype transport_result =
    Responded int json
  | NoResponse string
  | NotSent string

record world =
  network :: "nat \<Rightarrow> AxiosRequestConfig \<Rightarrow> transport_result"
  sent :: "AxiosRequestConfig list"

definition settle :: "transport_result \<Rightarrow> AxiosError + AxiosResponse" where
  "settle r =
     (case r of
        Responded st body \<Rightarrow>
          if 200 \<le> st \<and> st < 300 then Inr \<lparr>resp_status = st, resp_data = body\<rparr>
          else Inl \<lparr>err_message = ''Request failed with status code '' @ Number_toString (js_int st),
                    err_response = Some \<lparr>resp_status = st, resp_data = body\<rparr>,
                    err_request = True\<rparr>
      | NoResponse msg \<Rightarrow> Inl \<lparr>err_message = msg, err_response = None, err_request = True\<rparr>
      | NotSent msg \<Rightarrow> Inl \<lparr>err_message = msg, err_response = None, err_request = False\<rparr>)"

definition axios :: "AxiosRequestConfig \<Rightarrow> world \<Rightarrow> (AxiosError + AxiosResponse) \<times> world" where
  "axios config w =
     (settle (network w (length (sent w)) config), w\<lparr>sent := sent w @ [config]\<rparr>)"

subsection \<open>\<open>kongRequest\<close>\<close>

text \<open>
  \<open>kongRequest\<close> is modelled in four parts: the URL (\<open>request_url\<close>), the configuration
  handed to \<open>axios\<close> (\<open>request_config\<close>), the \<open>catch\<close> block (\<open>translate_error\<close>) and
  the call itself. The lines it writes with \<open>console.error\<close> are left out: they change
  neither what is sent nor what is returned or thrown.
\<close>

definition network_error_message :: string where
  "network_error_message = ''Network Error: No response received from Kong API. Please check your network connection and API endpoint configuration.''"

definition request_url :: "KongApi \<Rightarrow> string \<Rightarrow> string" where
  "request_url this endpoint =
     (let baseUrl0 = baseUrl this;
          baseUrl1 = (if startsWith endpoint ''/v3'' then replace baseUrl0 ''/v2'' [] else baseUrl0)
      in baseUrl1 @ endpoint)"

definition request_config ::
  "KongApi \<Rightarrow> string \<Rightarrow> string option \<Rightarrow> json option \<Rightarrow> AxiosRequestConfig" where
  "request_config this endpoint method data =
     (let url = request_url this endpoint;
          headers = [(''Authorization'', ''Bearer '' @ apiKey this),
                     (''Content-Type'', ''application/json''),
                     (''Accept'', ''application/json'')]
      in \<lparr>cfg_method = (case method of None \<Rightarrow> ''GET'' | Some m \<Rightarrow> m),
          cfg_url = url,
          cfg_headers = headers,
          cfg_data = (case data of
                        None \<Rightarrow> None
                      | Some d \<Rightarrow> if truthy d then Some d else None)\<rparr>)"

text \<open>The \<open>catch\<close> block: every path throws.\<close>

definition translate_error :: "AxiosError \<Rightarrow> js_error" where
  "translate_error error =
     (case err_response error of
        Some response \<Rightarrow>
          (let errorData = resp_data response;
               errorMessage = ''API Error (Status '' @ Number_toString (js_int (resp_status response)) @ '')''
           in if typeof errorData = ''object'' then
                (case errorData of
                   JNull \<Rightarrow> TypeError
                 | _ \<Rightarrow>
                   (let errorDetails =
                          (case get_property errorData ''message'' of
                             Some m \<Rightarrow> if truthy m then to_String m else JSON_stringify errorData
                           | None \<Rightarrow> JSON_stringify errorData)
                    in Error (errorMessage @ '': '' @ errorDetails)))
              else if typeof errorData = ''string'' then
                (case errorData of
                   JStr s \<Rightarrow> Error (errorMessage @ '': '' @ substring s 0 200)
                 | _ \<Rightarrow> Error errorMessage)
              else Error errorMessage)
      | None \<Rightarrow>
          if err_request error then Error network_error_message
          else Error (''Request Error: '' @ err_message error @
                      ''. Please check your request parameters and try again.''))"

definition kongRequest ::
  "KongApi \<Rightarrow> string \<Rightarrow> string option \<Rightarrow> json option \<Rightarrow> world \<Rightarrow> (js_error + json) \<times> world" where
  "kongRequest this endpoint method data w =
     (let config = request_config this endpoint method data;
          (settled, w') = axios config w
      in case settled of
           Inr response \<Rightarrow> (Inr (resp_data response), w')
         | Inl error \<Rightarrow> (Inl (translate_error error), w'))"

subsection \<open>Optional arguments\<close>

text \<open>
  An optional argument is \<open>None\<close> when the caller leaves it out (\<open>undefined\<close>).
  \<open>if (x) endpoint += ...\<close> appends for a truthy \<open>x\<close> only: a number other than zero
  and \<open>NaN\<close>, a string other than the empty one. \<open>if (x !== undefined)\<close> appends for
  every value. Where the appended text calls \<open>encodeURIComponent\<close>, the statement
  throws when that call throws.
\<close>

definition default_to :: "'a \<Rightarrow> 'a option \<Rightarrow> 'a" where
  "default_to d x = (case x of None \<Rightarrow> d | Some v \<Rightarrow> v)"

definition if_truthy_num :: "js_number option \<Rightarrow> (js_number \<Rightarrow> string) \<Rightarrow> string" where
  "if_truthy_num x f = (case x of None \<Rightarrow> [] | Some n \<Rightarrow> if number_truthy n then f n else [])"

definition if_truthy_str :: "string option \<Rightarrow> (string \<Rightarrow> string) \<Rightarrow> string" where
  "if_truthy_str x f = (case x of None \<Rightarrow> [] | Some s \<Rightarrow> if s \<noteq> [] then f s else [])"

definition if_defined :: "bool option \<Rightarrow> (bool \<Rightarrow> string) \<Rightarrow> string" where
  "if_defined x f = (case x of None \<Rightarrow> [] | Some b \<Rightarrow> f b)"

definition if_truthy_text :: "utf16 option \<Rightarrow> (string \<Rightarrow> string) \<Rightarrow> js_error + string" where
  "if_truthy_text x f =
     (case x of
        None \<Rightarrow> Inr []
      | Some s \<Rightarrow>
          if s \<noteq> [] then (case encodeURIComponent s of Inl e \<Rightarrow> Inl e | Inr v \<Rightarrow> Inr (f v))
          else Inr [])"

text \<open>\<open>endpoint += piece\<close>, statement after statement: the first statement that throws
  ends the builder.\<close>

definition append_piece :: "js_error + string \<Rightarrow> js_error + string \<Rightarrow> js_error + string" where
  "append_piece endpoint piece =
     (case endpoint of
        Inl e \<Rightarrow> Inl e
      | Inr a \<Rightarrow> (case piece of Inl e \<Rightarrow> Inl e | Inr p \<Rightarrow> Inr (a @ p)))"

text \<open>A method that builds its endpoint and hands it to \<open>kongRequest\<close> with the default
  method and no body; when the builder throws, nothing is sent.\<close>

definition request_endpoint ::
  "KongApi \<Rightarrow> js_error + string \<Rightarrow> world \<Rightarrow> (js_error + json) \<times> world" where
  "request_endpoint this endpoint w =
     (case endpoint of
        Inl e \<Rightarrow> (Inl e, w)
      | Inr ep \<Rightarrow> kongRequest this ep None None w)"

subsection \<open>Analytics\<close>

definition queryApiRequests_body :: "string \<Rightarrow> json list option \<Rightarrow> js_number option \<Rightarrow> json" where
  "queryApiRequests_body timeRange filters maxResults =
     JObj [(''time_range'', JObj [(''type'', JStr ''relative''), (''time_range'', JStr timeRange)]),
           (''filters'', JArr (default_to [] filters)),
           (''size'', JNum (default_to (js_int 100) maxResults))]"

definition queryApiRequests ::
  "KongApi \<Rightarrow> string \<Rightarrow> json list option \<Rightarrow> js_number option \<Rightarrow> world \<Rightarrow> (js_error + json) \<times> world" where
  "queryApiRequests this timeRange filters maxResults w =
     (let requestBody = queryApiRequests_body timeRange filters maxResults
      in kongRequest this ''/api-requests'' (Some ''POST'') (Some requestBody) w)"

subsection \<open>Control planes\<close>

definition listControlPlanes_endpoint ::
  "js_number option \<Rightarrow> js_number option \<Rightarrow> utf16 option \<Rightarrow> utf16 option \<Rightarrow> bool option \<Rightarrow>
   utf16 option \<Rightarrow> utf16 option \<Rightarrow> js_error + string" where
  "listControlPlanes_endpoint pageSize pageNumber filterName filterClusterType filterCloudGateway
      labels sort' =
     foldl append_piece
       (Inr (''/control-planes?page[size]='' @ Number_toString (default_to (js_int 10) pageSize)))
       [Inr (if_truthy_num pageNumber (\<lambda>n. ''&page[number]='' @ Number_toString n)),
        if_truthy_text filterName (\<lambda>v. ''&filter[name][contains]='' @ v),
        if_truthy_text filterClusterType (\<lambda>v. ''&filter[cluster_type][eq]='' @ v),
        Inr (if_defined filterCloudGateway (\<lambda>b. ''&filter[cloud_gateway]='' @ bool_to_string b)),
        if_truthy_text labels (\<lambda>v. ''&labels='' @ v),
        if_truthy_text sort' (\<lambda>v. ''&sort='' @ v)]"

definition listControlPlanes ::
  "KongApi \<Rightarrow> js_number option \<Rightarrow> js_number option \<Rightarrow> utf16 option \<Rightarrow> utf16 option \<Rightarrow>
   bool option \<Rightarrow> utf16 option \<Rightarrow> utf16 option \<Rightarrow> world \<Rightarrow> (js_error + json) \<times> world" where
  "listControlPlanes this pageSize pageNumber filterName filterClusterType filterCloudGateway
      labels sort' w =
     request_endpoint this
       (listControlPlanes_endpoint pageSize pageNumber filterName filterClusterType
          filterCloudGateway labels sort') w"

definition getControlPlane :: "KongApi \<Rightarrow> string \<Rightarrow> world \<Rightarrow> (js_error + json) \<times> world" where
  "getControlPlane this controlPlaneId w =
     kongRequest this (''/control-planes/'' @ controlPlaneId) None None w"

definition listControlPlaneGroupMemberships_endpoint ::
  "string \<Rightarrow> js_number option \<Rightarrow> string option \<Rightarrow> string" where
  "listControlPlaneGroupMemberships_endpoint groupId pageSize pageAfter =
     ''/control-planes/'' @ groupId @ ''/group-memberships?page[size]=''
       @ Number_toString (default_to (js_int 10) pageSize)
     @ if_truthy_str pageAfter (\<lambda>s. ''&page[after]='' @ s)"

definition listControlPlaneGroupMemberships ::
  "KongApi \<Rightarrow> string \<Rightarrow> js_number option \<Rightarrow> string option \<Rightarrow> world \<Rightarrow> (js_error + json) \<times> world" where
  "listControlPlaneGroupMemberships this groupId pageSize pageAfter w =
     kongRequest this (listControlPlaneGroupMemberships_endpoint groupId pageSize pageAfter)
       None None w"

definition checkControlPlaneGroupMembership ::
  "KongApi \<Rightarrow> string \<Rightarrow> world \<Rightarrow> (js_error + json) \<times> world" where
  "checkControlPlaneGroupMembership this controlPlaneId w =
     kongRequest this (''/control-planes/'' @ controlPlaneId @ ''/group-member-status'') None None w"

subsection \<open>Configuration entities\<close>

definition listServices_endpoint :: "string \<Rightarrow> js_number option \<Rightarrow> string option \<Rightarrow> string" where
  "listServices_endpoint controlPlaneId size' offset =
     ''/control-planes/'' @ controlPlaneId @ ''/core-entities/services?size=''
       @ Number_toString (default_to (js_int 100) size')
     @ if_truthy_str offset (\<lambda>s. ''&offset='' @ s)"

definition listServices ::
  "KongApi \<Rightarrow> string \<Rightarrow> js_number option \<Rightarrow> string option \<Rightarrow> world \<Rightarrow> (js_error + json) \<times> world" where
  "listServices this controlPlaneId size' offset w =
     kongRequest this (listServices_endpoint controlPlaneId size' offset) None None w"

definition listRoutes_endpoint :: "string \<Rightarrow> js_number option \<Rightarrow> string option \<Rightarrow> string" where
  "listRoutes_endpoint controlPlaneId size' offset =
     ''/control-planes/'' @ controlPlaneId @ ''/core-entities/routes?size=''
       @ Number_toString (default_to (js_int 100) size')
     @ if_truthy_str offset (\<lambda>s. ''&offset='' @ s)"

definition listRoutes ::
  "KongApi \<Rightarrow> string \<Rightarrow> js_number option \<Rightarrow> string option \<Rightarrow> world \<Rightarrow> (js_error + json) \<times> world" where
  "listRoutes this controlPlaneId size' offset w =
     kongRequest this (listRoutes_endpoint controlPlaneId size' offset) None None w"

definition listConsumers_endpoint :: "string \<Rightarrow> js_number option \<Rightarrow> string option \<Rightarrow> string" where
  "listConsumers_endpoint controlPlaneId size' offset =
     ''/control-planes/'' @ controlPlaneId @ ''/core-entities/consumers?size=''
       @ Number_toString (default_to (js_int 100) size')
     @ if_truthy_str offset (\<lambda>s. ''&offset='' @ s)"

definition listConsumers ::
  "KongApi \<Rightarrow> string \<Rightarrow> js_number option \<Rightarrow> string option \<Rightarrow> world \<Rightarrow> (js_error + json) \<times> world" where
  "listConsumers this controlPlaneId size' offset w =
     kongRequest this (listConsumers_endpoint controlPlaneId size' offset) None None w"

definition listPlugins_endpoint :: "string \<Rightarrow> js_number option \<Rightarrow> string option \<Rightarrow> string" where
  "listPlugins_endpoint controlPlaneId size' offset =
     ''/control-planes/'' @ controlPlaneId @ ''/core-entities/plugins?size=''
       @ Number_toString (default_to (js_int 100) size')
     @ if_truthy_str offset (\<lambda>s. ''&offset='' @ s)"

definition listPlugins ::
  "KongApi \<Rightarrow> string \<Rightarrow> js_number option \<Rightarrow> string option \<Rightarrow> world \<Rightarrow> (js_error + json) \<times> world" where
  "listPlugins this controlPlaneId size' offset w =
     kongRequest this (listPlugins_endpoint controlPlaneId size' offset) None None w"

subsection \<open>Dev portal\<close>

definition listDevPortalApis_endpoint ::
  "string \<Rightarrow> js_number option \<Rightarrow> js_number option \<Rightarrow> utf16 option \<Rightarrow> bool option \<Rightarrow>
   utf16 option \<Rightarrow> js_error + string" where
  "listDevPortalApis_endpoint controlPlaneId pageSize pageNumber filterName filterPublished sort' =
     foldl append_piece
       (Inr (''/v3/apis?page[size]='' @ Number_toString (default_to (js_int 10) pageSize)))
       [Inr (if_truthy_num pageNumber (\<lambda>n. ''&page[number]='' @ Number_toString n)),
        if_truthy_text filterName (\<lambda>v. ''&filter[name][contains]='' @ v),
        Inr (if_defined filterPublished (\<lambda>b. ''&filter[published]='' @ bool_to_string b)),
        if_truthy_text sort' (\<lambda>v. ''&sort='' @ v)]"

definition listDevPortalApis ::
  "KongApi \<Rightarrow> string \<Rightarrow> js_number option \<Rightarrow> js_number option \<Rightarrow> utf16 option \<Rightarrow> bool option \<Rightarrow>
   utf16 option \<Rightarrow> world \<Rightarrow> (js_error + json) \<times> world" where
  "listDevPortalApis this controlPlaneId pageSize pageNumber filterName filterPublished sort' w =
     request_endpoint this
       (listDevPortalApis_endpoint controlPlaneId pageSize pageNumber filterName filterPublished sort')
       w"

definition createDevPortalApplication_data :: "string \<Rightarrow> string \<Rightarrow> string \<Rightarrow> json" where
  "createDevPortalApplication_data controlPlaneId name description =
     JObj [(''name'', JStr name), (''description'', JStr description)]"

definition createDevPortalApplication ::
  "KongApi \<Rightarrow> string \<Rightarrow> string \<Rightarrow> string \<Rightarrow> world \<Rightarrow> (js_error + json) \<times> world" where
  "createDevPortalApplication this controlPlaneId name description w =
     (let endpoint = ''/v3/applications'';
          data = createDevPortalApplication_data controlPlaneId name description
      in kongRequest this endpoint (Some ''POST'') (Some data) w)"

definition listDevPortalPortals_endpoint :: "js_number option \<Rightarrow> js_number option \<Rightarrow> string" where
  "listDevPortalPortals_endpoint pageSize pageNumber =
     ''/v3/portals?page[size]='' @ Number_toString (default_to (js_int 10) pageSize)
     @ if_truthy_num pageNumber (\<lambda>n. ''&page[number]='' @ Number_toString n)"

definition listDevPortalPortals ::
  "KongApi \<Rightarrow> js_number option \<Rightarrow> js_number option \<Rightarrow> world \<Rightarrow> (js_error + json) \<times> world" where
  "listDevPortalPortals this pageSize pageNumber w =
     kongRequest this (listDevPortalPortals_endpoint pageSize pageNumber) None None w"

definition listDevPortalApplications_endpoint ::
  "string \<Rightarrow> js_number option \<Rightarrow> js_number option \<Rightarrow> utf16 option \<Rightarrow> utf16 option \<Rightarrow>
   js_error + string" where
  "listDevPortalApplications_endpoint controlPlaneId pageSize pageNumber filterName sort' =
     foldl append_piece
       (Inr (''/v3/applications?page[size]='' @ Number_toString (default_to (js_int 10) pageSize)))
       [Inr (if_truthy_num pageNumber (\<lambda>n. ''&page[number]='' @ Number_toString n)),
        if_truthy_text filterName (\<lambda>v. ''&filter[name][contains]='' @ v),
        if_truthy_text sort' (\<lambda>v. ''&sort='' @ v)]"

definition listDevPortalApplications ::
  "KongApi \<Rightarrow> string \<Rightarrow> js_number option \<Rightarrow> js_number option \<Rightarrow> utf16 option \<Rightarrow> utf16 option \<Rightarrow>
   world \<Rightarrow> (js_error + json) \<times> world" where
  "listDevPortalApplications this controlPlaneId pageSize pageNumber filterName sort' w =
     request_endpoint this
       (listDevPortalApplications_endpoint controlPlaneId pageSize pageNumber filterName sort')
       w"

definition createDevPortalSubscription_data :: "string \<Rightarrow> string \<Rightarrow> string \<Rightarrow> json" where
  "createDevPortalSubscription_data controlPlaneId apiId applicationId =
     JObj [(''api'', JObj [(''id'', JStr apiId)]),
           (''application'', JObj [(''id'', JStr applicationId)])]"

definition createDevPortalSubscription ::
  "KongApi \<Rightarrow> string \<Rightarrow> string \<Rightarrow> string \<Rightarrow> world \<Rightarrow> (js_error + json) \<times> world" where
  "createDevPortalSubscription this controlPlaneId apiId applicationId w =
     (let endpoint = ''/v3/subscriptions'';
          data = createDevPortalSubscription_data controlPlaneId apiId applicationId
      in kongRequest this endpoint (Some ''POST'') (Some data) w)"

definition listDevPortalSubscriptions_endpoint ::
  "string \<Rightarrow> string option \<Rightarrow> string option \<Rightarrow> js_number option \<Rightarrow> js_number option \<Rightarrow>
   string option \<Rightarrow> utf16 option \<Rightarrow> js_error + string" where
  "listDevPortalSubscriptions_endpoint controlPlaneId applicationId apiId pageSize pageNumber
      status sort' =
     foldl append_piece
       (Inr (''/v3/subscriptions?page[size]='' @ Number_toString (default_to (js_int 10) pageSize)))
       [Inr (if_truthy_num pageNumber (\<lambda>n. ''&page[number]='' @ Number_toString n)),
        Inr (if_truthy_str applicationId (\<lambda>s. ''&filter[application.id][eq]='' @ s)),
        Inr (if_truthy_str apiId (\<lambda>s. ''&filter[api.id][eq]='' @ s)),
        Inr (if_truthy_str status (\<lambda>s. ''&filter[status][eq]='' @ s)),
        if_truthy_text sort' (\<lambda>v. ''&sort='' @ v)]"

definition listDevPortalSubscriptions ::
  "KongApi \<Rightarrow> string \<Rightarrow> string option \<Rightarrow> string option \<Rightarrow> js_number option \<Rightarrow> js_number option \<Rightarrow>
   string option \<Rightarrow> utf16 option \<Rightarrow> world \<Rightarrow> (js_error + json) \<times> world" where
  "listDevPortalSubscriptions this controlPlaneId applicationId apiId pageSize pageNumber
      status sort' w =
     request_endpoint this
       (listDevPortalSubscriptions_endpoint controlPlaneId applicationId apiId pageSize
          pageNumber status sort') w"

definition createDevPortalApiKey_data :: "string \<Rightarrow> string \<Rightarrow> string \<Rightarrow> js_number option \<Rightarrow> json" where
  "createDevPortalApiKey_data controlPlaneId subscriptionId name expiresIn =
     JObj ([(''name'', JStr name), (''subscription'', JObj [(''id'', JStr subscriptionId)])]
           @ (case expiresIn of
                None \<Rightarrow> []
              | Some n \<Rightarrow> if number_truthy n then [(''expires_in'', JNum n)] else []))"

definition createDevPortalApiKey ::
  "KongApi \<Rightarrow> string \<Rightarrow> string \<Rightarrow> string \<Rightarrow> js_number option \<Rightarrow> world \<Rightarrow> (js_error + json) \<times> world" where
  "createDevPortalApiKey this controlPlaneId subscriptionId name expiresIn w =
     (let endpoint = ''/v3/api-keys'';
          data = createDevPortalApiKey_data controlPlaneId subscriptionId name expiresIn
      in kongRequest this endpoint (Some ''POST'') (Some data) w)"

section \<open>A client in use\<close>

text \<open>
  The methods of the class, as the calls a holder of a client can make, and a client
  used for one call after the other. No method assigns a field of the client, so every
  call of a session is made on the client as it was constructed.
\<close>

datatype "call" =
    KongRequest string "string option" "json option"
  | QueryApiRequests string "json list option" "js_number option"
  | ListControlPlanes "js_number option" "js_number option" "utf16 option" "utf16 option"
      "bool option" "utf16 option" "utf16 option"
  | GetControlPlane string
  | ListControlPlaneGroupMemberships string "js_number option" "string option"
  | CheckControlPlaneGroupMembership string
  | ListServices string "js_number option" "string option"
  | ListRoutes string "js_number option" "string option"
  | ListConsumers string "js_number option" "string option"
  | ListPlugins string "js_number option" "string option"
  | ListDevPortalApis string "js_number option" "js_number option" "utf16 option" "bool option"
      "utf16 option"
  | CreateDevPortalApplication string string string
  | ListDevPortalPortals "js_number option" "js_number option"
  | ListDevPortalApplications string "js_number option" "js_number option" "utf16 option"
      "utf16 option"
  | CreateDevPortalSubscription string string string
  | ListDevPortalSubscriptions string "string option" "string option" "js_number option"
      "js_number option" "string option" "utf16 option"
  | CreateDevPortalApiKey string string string "js_number option"

fun perform :: "KongApi \<Rightarrow> call \<Rightarrow> world \<Rightarrow> (js_error + json) \<times> world" where
  "perform this (KongRequest endpoint m d) w = kongRequest this endpoint m d w"
| "perform this (QueryApiRequests t f n) w = queryApiRequests this t f n w"
| "perform this (ListControlPlanes a b c d e f g) w = listControlPlanes this a b c d e f g w"
| "perform this (GetControlPlane a) w = getControlPlane this a w"
| "perform this (ListControlPlaneGroupMemberships a b c) w =
     listControlPlaneGroupMemberships this a b c w"
| "perform this (CheckControlPlaneGroupMembership a) w = checkControlPlaneGroupMembership this a w"
| "perform this (ListServices a b c) w = listServices this a b c w"
| "perform this (ListRoutes a b c) w = listRoutes this a b c w"
| "perform this (ListConsumers a b c) w = listConsumers this a b c w"
| "perform this (ListPlugins a b c) w = listPlugins this a b c w"
| "perform this (ListDevPortalApis a b c d e f) w = listDevPortalApis this a b c d e f w"
| "perform this (CreateDevPortalApplication a b c) w = createDevPortalApplication this a b c w"
| "perform this (ListDevPortalPortals a b) w = listDevPortalPortals this a b w"
| "perform this (ListDevPortalApplications a b c d e) w =
     listDevPortalApplications this a b c d e w"
| "perform this (CreateDevPortalSubscription a b c) w = createDevPortalSubscription this a b c w"
| "perform this (ListDevPortalSubscriptions a b c d e f g) w =
     listDevPortalSubscriptions this a b c d e f g w"
| "perform this (CreateDevPortalApiKey a b c d) w = createDevPortalApiKey this a b c d w"

fun session :: "KongApi \<Rightarrow> call list \<Rightarrow> world \<Rightarrow> (js_error + json) list \<times> world" where
  "session this [] w = ([], w)"
| "session this (c # cs) w =
     (let (r, w1) = perform this c w;
          (rs, w2) = session this cs w1
      in (r # rs, w2))"

section \<open>The tool catalog (\<open>src/tools.ts\<close>)\<close>

text \<open>
  The descriptions and the parameter schemas come from the functions of \<open>prompts.js\<close>
  and \<open>parameters.js\<close>, which are not among the sources. \<open>tools\<close> takes them as
  parameters: \<open>prompts f\<close> and \<open>params f\<close> are the calls of the provider functions
  named \<open>f\<close>, computations on a state \<open>'s\<close> that return the description or the schema.
  Evaluating the array literal makes the calls in the order of the text.
\<close>

record 'z Tool =
  "method" :: string
  name :: string
  description :: string
  parameters :: 'z
  category :: string




section \<open>Query strings, as the specification describes them\<close>

text \<open>
  The specification asks for a query string made of \<open>key=value\<close> pairs joined by \<open>&\<close>
  after one \<open>?\<close>. \<open>query_string\<close> renders a list of pairs that way, and \<open>query_pairs\<close>
  reads the pairs back from an endpoint: the text after the first \<open>?\<close>, cut at every
  \<open>&\<close>, each piece cut at its first \<open>=\<close>.
\<close>

definition query_pair :: "string \<times> string \<Rightarrow> string" where
  "query_pair kv = fst kv @ ''='' @ snd kv"

definition query_string :: "(string \<times> string) list \<Rightarrow> string" where
  "query_string ps = join ''&'' (map query_pair ps)"

fun split_on :: "char \<Rightarrow> string \<Rightarrow> string list" where
  "split_on c [] = [[]]"
| "split_on c (x # xs) =
     (if x = c then [] # split_on c xs
      else (case split_on c xs of [] \<Rightarrow> [[x]] | p # ps \<Rightarrow> (x # p) # ps))"

definition parse_pair :: "string \<Rightarrow> string \<times> string" where
  "parse_pair p = (takeWhile (\<lambda>x. x \<noteq> CHR ''='') p, drop 1 (dropWhile (\<lambda>x. x \<noteq> CHR ''='') p))"

definition query_pairs :: "string \<Rightarrow> (string \<times> string) list" where
  "query_pairs endpoint =
     (let q = drop 1 (dropWhile (\<lambda>x. x \<noteq> CHR ''?'') endpoint)
      in if q = [] then [] else map parse_pair (split_on CHR ''&'' q))"

text \<open>
  The pairs an optional argument contributes under the guards of the builders: a number
  when it is truthy, a string when it is not empty (percent-encoded for the name,
  cluster-type, labels and sort arguments, as it is for the identifiers, cursors and the
  status), a boolean whenever it is given.
\<close>

definition percent_encoded :: "utf16 \<Rightarrow> string" where
  "percent_encoded s = (case encodeURIComponent s of Inl e \<Rightarrow> [] | Inr v \<Rightarrow> v)"

text \<open>A text is ill-formed when it holds a surrogate without its partner.\<close>

fun has_lone_surrogate :: "utf16 \<Rightarrow> bool" where
  "has_lone_surrogate [] = False"
| "has_lone_surrogate (c # cs) =
     (let n = unat c in
      if 0xD800 \<le> n \<and> n < 0xDC00 then
        (case cs of
           [] \<Rightarrow> True
         | d # ds \<Rightarrow>
             if 0xDC00 \<le> unat d \<and> unat d < 0xE000 then has_lone_surrogate ds else True)
      else if 0xDC00 \<le> n \<and> n < 0xE000 then True
      else has_lone_surrogate cs)"

definition well_formed :: "utf16 option \<Rightarrow> bool" where
  "well_formed x = (case x of None \<Rightarrow> True | Some s \<Rightarrow> \<not> has_lone_surrogate s)"

definition kept_num :: "string \<Rightarrow> js_number option \<Rightarrow> (string \<times> string) list" where
  "kept_num k x =
     (case x of None \<Rightarrow> [] | Some n \<Rightarrow> if number_truthy n then [(k, Number_toString n)] else [])"

definition kept_text :: "string \<Rightarrow> utf16 option \<Rightarrow> (string \<times> string) list" where
  "kept_text k x =
     (case x of None \<Rightarrow> [] | Some s \<Rightarrow> if s \<noteq> [] then [(k, percent_encoded s)] else [])"

definition kept_raw :: "string \<Rightarrow> string option \<Rightarrow> (string \<times> string) list" where
  "kept_raw k x = (case x of None \<Rightarrow> [] | Some s \<Rightarrow> if s \<noteq> [] then [(k, s)] else [])"

definition kept_flag :: "string \<Rightarrow> bool option \<Rightarrow> (string \<times> string) list" where
  "kept_flag k x = (case x of None \<Rightarrow> [] | Some b \<Rightarrow> [(k, bool_to_string b)])"

definition listControlPlanes_pairs ::
  "js_number option \<Rightarrow> js_number option \<Rightarrow> utf16 option \<Rightarrow> utf16 option \<Rightarrow> bool option \<Rightarrow>
   utf16 option \<Rightarrow> utf16 option \<Rightarrow> (string \<times> string) list" where
  "listControlPlanes_pairs pageSize pageNumber filterName filterClusterType filterCloudGateway
      labels sort' =
     (''page[size]'', Number_toString (default_to (js_int 10) pageSize))
     # kept_num ''page[number]'' pageNumber
     @ kept_text ''filter[name][contains]'' filterName
     @ kept_text ''filter[cluster_type][eq]'' filterClusterType
     @ kept_flag ''filter[cloud_gateway]'' filterCloudGateway
     @ kept_text ''labels'' labels
     @ kept_text ''sort'' sort'"

definition listDevPortalApis_pairs ::
  "js_number option \<Rightarrow> js_number option \<Rightarrow> utf16 option \<Rightarrow> bool option \<Rightarrow> utf16 option \<Rightarrow>
   (string \<times> string) list" where
  "listDevPortalApis_pairs pageSize pageNumber filterName filterPublished sort' =
     (''page[size]'', Number_toString (default_to (js_int 10) pageSize))
     # kept_num ''page[number]'' pageNumber
     @ kept_text ''filter[name][contains]'' filterName
     @ kept_flag ''filter[published]'' filterPublished
     @ kept_text ''sort'' sort'"

definition listDevPortalApplications_pairs ::
  "js_number option \<Rightarrow> js_number option \<Rightarrow> utf16 option \<Rightarrow> utf16 option \<Rightarrow>
   (string \<times> string) list" where
  "listDevPortalApplications_pairs pageSize pageNumber filterName sort' =
     (''page[size]'', Number_toString (default_to (js_int 10) pageSize))
     # kept_num ''page[number]'' pageNumber
     @ kept_text ''filter[name][contains]'' filterName
     @ kept_text ''sort'' sort'"

definition listDevPortalSubscriptions_pairs ::
  "string option \<Rightarrow> string option \<Rightarrow> js_number option \<Rightarrow> js_number option \<Rightarrow> string option \<Rightarrow>
   utf16 option \<Rightarrow> (string \<times> string) list" where
  "listDevPortalSubscriptions_pairs applicationId apiId pageSize pageNumber status sort' =
     (''page[size]'', Number_toString (default_to (js_int 10) pageSize))
     # kept_num ''page[number]'' pageNumber
     @ kept_raw ''filter[application.id][eq]'' applicationId
     @ kept_raw ''filter[api.id][eq]'' apiId
     @ kept_raw ''filter[status][eq]'' status
     @ kept_text ''sort'' sort'"

section \<open>Character classes of the rendered values\<close>

definition dec_chars :: "char list" where
  "dec_chars = ''0123456789''"

definition num_chars :: "char list" where
  "num_chars = ''-+.eINafinty'' @ dec_chars"

definition hex_chars :: "char list" where
  "hex_chars = ''%0123456789ABCDEF''"

definition uri_safe :: "char list" where
  "uri_safe = uri_unreserved @ hex_chars"

text \<open>A pair that survives the reading back: no \<open>=\<close> in the key, no \<open>&\<close> in the key or
  the value. An optional raw value is harmless when it holds no \<open>&\<close>.\<close>

definition clean_pair :: "string \<times> string \<Rightarrow> bool" where
  "clean_pair kv =
     (CHR ''='' \<notin> set (fst kv) \<and> CHR ''&'' \<notin> set (fst kv) \<and> CHR ''&'' \<notin> set (snd kv))"

definition amp_free :: "string option \<Rightarrow> bool" where
  "amp_free x = (case x of None \<Rightarrow> True | Some s \<Rightarrow> CHR ''&'' \<notin> set s)"

text \<open>An argument given as the empty string, read as an argument left out.\<close>

definition drop_empty :: "'a list option \<Rightarrow> 'a list option" where
  "drop_empty x = (case x of None \<Rightarrow> None | Some s \<Rightarrow> if s = [] then None else Some s)"

section \<open>The configuration, as the specification describes it\<close>

text \<open>
  A setting is resolved from the explicit option when that is a string other than the
  empty one, else from the environment when that is one, else it is the fallback.
\<close>

definition no_value :: "string option \<Rightarrow> bool" where
  "no_value x = (x = None \<or> x = Some [])"

definition resolved :: "string option \<Rightarrow> string option \<Rightarrow> string \<Rightarrow> string" where
  "resolved explicit ambient fallback =
     (if \<not> no_value explicit then (case explicit of Some s \<Rightarrow> s | None \<Rightarrow> fallback)
      else if \<not> no_value ambient then (case ambient of Some s \<Rightarrow> s | None \<Rightarrow> fallback)
      else fallback)"

subsection \<open>Characters of rendered numbers and encoded text\<close>

lemma digit_char_in: "d < 10 \<Longrightarrow> digit_char d \<in> set dec_chars"
  unfolding digit_char_def dec_chars_def by (rule nth_mem) simp

lemma digits_step: "\<not> n < 10 \<Longrightarrow> digits n = digits (n div 10) @ [digit_char (n mod 10)]"
  by (subst digits.simps) simp

lemma digits_base: "n < 10 \<Longrightarrow> digits n = [digit_char n]"
  by (subst digits.simps) simp

lemma digits_chars: "set (digits n) \<subseteq> set dec_chars"
proof (induction n rule: digits.induct)
  case (1 n)
  show ?case
  proof (cases "n < 10")
    case True
    then show ?thesis using digit_char_in [of n] by (simp add: digits_base)
  next
    case False
    have "n mod 10 < 10" by simp
    then have "digit_char (n mod 10) \<in> set dec_chars" by (rule digit_char_in)
    with False 1 show ?thesis by (simp add: digits_step)
  qed
qed

lemma dec_in_num: "set dec_chars \<subseteq> set num_chars"
  unfolding num_chars_def set_append by (rule Un_upper2)

lemma sig_digits_chars: "set (sig_digits s) \<subseteq> set dec_chars"
proof -
  have "set (sig_digits s) \<subseteq> set (digits s)"
    unfolding sig_digits_def set_rev using set_dropWhileD by fastforce
  then show ?thesis using digits_chars by blast
qed

lemma num_marks:
  "CHR ''0'' \<in> set num_chars" "CHR ''.'' \<in> set num_chars" "CHR ''e'' \<in> set num_chars"
  "CHR ''-'' \<in> set num_chars" "CHR ''+'' \<in> set num_chars"
  by (simp_all add: num_chars_def dec_chars_def)

lemma exponent_part_chars: "set (exponent_part e) \<subseteq> set num_chars"
  using digits_chars [of "nat \<bar>e\<bar>"] dec_in_num num_marks
  by (auto simp: exponent_part_def)

lemma finite_toString_chars:
  assumes "set ds \<subseteq> set dec_chars"
  shows "set (finite_toString ds n) \<subseteq> set num_chars"
proof -
  have ds: "set ds \<subseteq> set num_chars" using assms dec_in_num by blast
  have t: "set (take m ds) \<subseteq> set num_chars" for m using ds set_take_subset by fastforce
  have d: "set (drop m ds) \<subseteq> set num_chars" for m using ds set_drop_subset by fastforce
  have z: "set (replicate m CHR ''0'') \<subseteq> set num_chars" for m using num_marks(1) by auto
  show ?thesis
    unfolding finite_toString_def Let_def
    using ds t d z exponent_part_chars num_marks
    by (simp only: set_append set_simps Un_subset_iff insert_subset empty_subsetI simp_thms
        split: if_splits) 
qed

lemma Number_toString_chars: "set (Number_toString x) \<subseteq> set num_chars"
proof (cases x)
  case NaN
  then show ?thesis by (simp add: num_chars_def)
next
  case (Infinity neg)
  then show ?thesis by (simp add: num_chars_def)
next
  case (Finite neg s n)
  have "set (finite_toString (sig_digits s) n) \<subseteq> set num_chars"
    using sig_digits_chars by (rule finite_toString_chars)
  with Finite num_marks show ?thesis by auto
qed

lemma amp_not_num: "CHR ''&'' \<notin> set num_chars"
  by (simp add: num_chars_def dec_chars_def)

lemma Number_toString_no_amp: "CHR ''&'' \<notin> set (Number_toString x)"
  using Number_toString_chars [of x] amp_not_num by blast

lemma bool_to_string_no_amp: "CHR ''&'' \<notin> set (bool_to_string b)"
  by (simp add: bool_to_string_def)

subsection \<open>Integers print as their decimal numeral\<close>

lemma length_digits_le: "0 < k \<Longrightarrow> n < 10 ^ k \<Longrightarrow> length (digits n) \<le> k"
proof (induction n arbitrary: k rule: digits.induct)
  case (1 n)
  show ?case
  proof (cases "n < 10")
    case True
    with 1(2) show ?thesis by (simp add: digits_base)
  next
    case False
    obtain j where k: "k = Suc j" using 1(2) by (cases k) auto
    have "j \<noteq> 0" using False 1(3) k by (cases j) auto
    moreover have "n div 10 < 10 ^ j" using 1(3) k by (simp add: less_mult_imp_div_less mult.commute)
    ultimately have "length (digits (n div 10)) \<le> j" using 1(1) [OF False, of j] by simp
    with False k show ?thesis by (simp add: digits_step)
  qed
qed

lemma sig_digits_zeros:
  "digits s = sig_digits s @ replicate (length (digits s) - length (sig_digits s)) CHR ''0''"
proof -
  let ?P = "\<lambda>c. c = CHR ''0''"
  let ?z = "takeWhile ?P (rev (digits s))"
  have "rev (?z @ dropWhile ?P (rev (digits s))) = rev (dropWhile ?P (rev (digits s))) @ rev ?z"
    by (rule rev_append)
  moreover have "?z @ dropWhile ?P (rev (digits s)) = rev (digits s)"
    by (rule takeWhile_dropWhile_id)
  ultimately have "rev (rev (digits s)) = rev (dropWhile ?P (rev (digits s))) @ rev ?z"
    by (simp only:)
  then have split: "digits s = sig_digits s @ rev ?z"
    by (simp only: rev_rev_ident sig_digits_def)
  have "?z = replicate (length ?z) CHR ''0''"
    by (rule replicate_eqI) (auto dest: set_takeWhileD)
  then have "rev ?z = replicate (length ?z) CHR ''0''" by (metis rev_replicate)
  moreover have "length ?z = length (digits s) - length (sig_digits s)"
    using arg_cong [OF split, of length] by simp
  ultimately show ?thesis using split by simp
qed

lemma Number_toString_js_int:
  assumes "\<bar>i\<bar> < 10 ^ 21"
  shows "Number_toString (js_int i) = (if i < 0 then ''-'' else []) @ digits (nat \<bar>i\<bar>)"
proof (cases "i = 0")
  case True
  then show ?thesis by (simp add: js_int_def digits_base digit_char_def)
next
  case False
  let ?s = "nat \<bar>i\<bar>"
  have s: "?s \<noteq> 0" using False by simp
  have "?s < 10 ^ 21" using assms by (simp add: nat_less_iff)
  then have n: "length (digits ?s) \<le> 21" by (intro length_digits_le) simp_all
  have k: "length (sig_digits ?s) \<le> length (digits ?s)"
    using arg_cong [OF sig_digits_zeros [of ?s], of length] by simp
  have "finite_toString (sig_digits ?s) (int (length (digits ?s)))
      = sig_digits ?s @ replicate (length (digits ?s) - length (sig_digits ?s)) CHR ''0''"
    using n k by (simp add: finite_toString_def Let_def nat_diff_distrib' of_nat_diff)
  then have "finite_toString (sig_digits ?s) (int (length (digits ?s))) = digits ?s"
    using sig_digits_zeros [of ?s] by simp
  with s show ?thesis by (simp add: js_int_def)
qed

lemma Number_toString_small:
  "Number_toString (js_int 10) = ''10''"
  "Number_toString (js_int 100) = ''100''"
  "Number_toString (js_int 2) = ''2''"
  "Number_toString (js_int 401) = ''401''"
  "Number_toString (js_int 500) = ''500''"
  by (simp_all add: Number_toString_js_int digits.simps digit_char_def)

subsection \<open>\<open>encodeURIComponent\<close>\<close>

lemma hex_upper_in: "d < 16 \<Longrightarrow> hex_upper d \<in> set hex_chars"
proof -
  assume "d < 16"
  then have "''0123456789ABCDEF'' ! d \<in> set ''0123456789ABCDEF''" by (intro nth_mem) simp
  then show ?thesis unfolding hex_upper_def hex_chars_def by (simp only: set_simps insert_iff simp_thms)
qed

lemma percent_byte_chars: "b < 256 \<Longrightarrow> set (percent_byte b) \<subseteq> set hex_chars"
proof -
  assume b: "b < 256"
  then have "b div 16 < 16" by arith
  then have 1: "hex_upper (b div 16) \<in> set hex_chars" by (rule hex_upper_in)
  have "b mod 16 < 16" by simp
  then have 2: "hex_upper (b mod 16) \<in> set hex_chars" by (rule hex_upper_in)
  have 3: "CHR ''%'' \<in> set hex_chars" by (simp add: hex_chars_def)
  from 1 2 3 show ?thesis by (simp add: percent_byte_def)
qed

lemma utf8_octets: "cp < 0x110000 \<Longrightarrow> b \<in> set (utf8 cp) \<Longrightarrow> b < 256"
  unfolding utf8_def by (auto split: if_splits)

lemma percent_encode_chars:
  assumes "cp < 0x110000"
  shows "set (percent_encode cp) \<subseteq> set hex_chars"
  unfolding percent_encode_def
  using utf8_octets [OF assms] percent_byte_chars by fastforce

lemma hex_in_safe: "set hex_chars \<subseteq> set uri_safe"
  unfolding uri_safe_def set_append by (rule Un_upper2)

lemma unreserved_in_safe: "set uri_unreserved \<subseteq> set uri_safe"
  unfolding uri_safe_def set_append by (rule Un_upper1)

lemma percent_encode_safe: "cp < 0x110000 \<Longrightarrow> set (percent_encode cp) \<subseteq> set uri_safe"
  using percent_encode_chars hex_in_safe by blast

lemma then_text_Inr: "then_text a r = Inr v \<longleftrightarrow> (\<exists>b. r = Inr b \<and> v = a @ b)"
  by (cases r) (auto simp: then_text_def)

lemma then_text_Inl: "then_text a r = Inl e \<longleftrightarrow> r = Inl e"
  by (cases r) (auto simp: then_text_def)

lemma unat16_less: "unat (c :: 16 word) < 65536"
  using unsigned_less [of c, where 'a = nat] by simp

lemma encodeURIComponent_chars:
  "encodeURIComponent s = Inr v \<Longrightarrow> set v \<subseteq> set uri_safe"
proof (induction s arbitrary: v rule: encodeURIComponent.induct)
  case 1
  then show ?case by simp
next
  case (2 c cs)
  let ?n = "unat c"
  have n: "?n < 65536" by (rule unat16_less)
  consider (u) "?n < 0x80 \<and> char_of ?n \<in> set uri_unreserved"
    | (bmp) "\<not> (?n < 0x80 \<and> char_of ?n \<in> set uri_unreserved)" "?n < 0xD800 \<or> 0xE000 \<le> ?n"
    | (hi) "\<not> (?n < 0x80 \<and> char_of ?n \<in> set uri_unreserved)" "\<not> (?n < 0xD800 \<or> 0xE000 \<le> ?n)"
        "?n < 0xDC00"
    | (lo) "\<not> (?n < 0x80 \<and> char_of ?n \<in> set uri_unreserved)" "\<not> (?n < 0xD800 \<or> 0xE000 \<le> ?n)"
        "\<not> ?n < 0xDC00"
    by blast
  then show ?case
  proof cases
    case u
    with 2(4) obtain b where b: "encodeURIComponent cs = Inr b" "v = [char_of ?n] @ b"
      by (auto simp: Let_def then_text_Inr)
    from 2(1) [OF refl u b(1)] have "set b \<subseteq> set uri_safe" .
    moreover have "char_of ?n \<in> set uri_safe" using u unreserved_in_safe by blast
    ultimately show ?thesis using b(2) by simp
  next
    case bmp
    with 2(4) obtain b where b: "encodeURIComponent cs = Inr b" "v = percent_encode ?n @ b"
      by (auto simp: Let_def then_text_Inr)
    from 2(2) [OF refl bmp b(1)] have "set b \<subseteq> set uri_safe" .
    moreover have "set (percent_encode ?n) \<subseteq> set uri_safe"
      using n by (intro percent_encode_safe) simp
    ultimately show ?thesis using b(2) by simp
  next
    case hi
    from hi 2(4) obtain d ds where cs: "cs = d # ds" by (cases cs) (auto simp: Let_def)
    from hi 2(4) cs have d: "0xDC00 \<le> unat d \<and> unat d < 0xE000"
      by (auto simp: Let_def split: if_splits)
    let ?cp = "0x10000 + (?n - 0xD800) * 0x400 + (unat d - 0xDC00)"
    from hi 2(4) cs d obtain b where b: "encodeURIComponent ds = Inr b" "v = percent_encode ?cp @ b"
      by (auto simp: Let_def then_text_Inr)
    from 2(3) [OF refl hi cs d b(1)] have "set b \<subseteq> set uri_safe" .
    moreover have "?n - 0xD800 \<le> 1023" using hi by arith
    then have "(?n - 0xD800) * 0x400 \<le> 1023 * 0x400" by (rule mult_le_mono1)
    then have "?cp < 0x110000" using d by arith
    then have "set (percent_encode ?cp) \<subseteq> set uri_safe" by (rule percent_encode_safe)
    ultimately show ?thesis using b(2) by simp
  next
    case lo
    with 2(4) show ?thesis by (simp add: Let_def)
  qed
qed

lemma encodeURIComponent_error:
  "encodeURIComponent s = Inl e \<Longrightarrow> e = URIError"
  by (induction s rule: encodeURIComponent.induct)
    (auto simp: Let_def then_text_Inl split: if_splits list.splits)

lemma encodeURIComponent_lone:
  "has_lone_surrogate s \<longleftrightarrow> encodeURIComponent s = Inl URIError"
proof (induction s rule: encodeURIComponent.induct)
  case 1
  then show ?case by simp
next
  case (2 c cs)
  let ?n = "unat c"
  have u: "?n < 0x80 \<Longrightarrow> \<not> (0xD800 \<le> ?n)" by simp
  show ?case
    using 2 u
    by (auto simp: Let_def then_text_Inl split: if_splits list.splits)
qed

lemma encodeURIComponent_cases:
  "encodeURIComponent s
     = (if has_lone_surrogate s then Inl URIError else Inr (percent_encoded s))"
proof (cases "encodeURIComponent s")
  case (Inl e)
  then have "e = URIError" by (rule encodeURIComponent_error)
  with Inl show ?thesis by (simp add: encodeURIComponent_lone)
next
  case (Inr v)
  then show ?thesis by (simp add: encodeURIComponent_lone percent_encoded_def)
qed

lemma percent_encoded_chars: "set (percent_encoded s) \<subseteq> set uri_safe"
  using encodeURIComponent_chars [of s]
  by (cases "encodeURIComponent s") (simp_all add: percent_encoded_def)

lemma amp_not_safe: "CHR ''&'' \<notin> set uri_safe"
  by (simp add: uri_safe_def uri_unreserved_def hex_chars_def)

lemma percent_encoded_no_amp: "CHR ''&'' \<notin> set (percent_encoded s)"
  using percent_encoded_chars [of s] amp_not_safe by blast

text \<open>Some texts outside ASCII: \<open>U+00E9\<close>, \<open>U+20AC\<close>, the surrogate pair of
  \<open>U+1F600\<close>, and the same two surrogates the wrong way round.\<close>

lemma encodeURIComponent_examples:
  "encodeURIComponent [0xE9] = Inr ''%C3%A9''"
  "encodeURIComponent [0x20AC] = Inr ''%E2%82%AC''"
  "encodeURIComponent [0xD83D, 0xDE00] = Inr ''%F0%9F%98%80''"
  "encodeURIComponent [0xDE00, 0xD83D] = Inl URIError"
  by (simp_all add: Let_def percent_encode_def utf8_def percent_byte_def hex_upper_def
      then_text_def)

subsection \<open>Splitting and joining\<close>

lemma split_on_nonempty: "split_on c s \<noteq> []"
  by (induction s) (auto split: list.splits)

lemma split_on_none: "c \<notin> set a \<Longrightarrow> split_on c a = [a]"
  by (induction a) auto

lemma split_on_append: "c \<notin> set a \<Longrightarrow> split_on c (a @ c # b) = a # split_on c b"
  by (induction a) auto

lemma split_on_join:
  "ps \<noteq> [] \<Longrightarrow> (\<And>p. p \<in> set ps \<Longrightarrow> c \<notin> set p) \<Longrightarrow> split_on c (join [c] ps) = ps"
proof (induction "[c]" ps rule: join.induct)
  case 1
  then show ?case by simp
next
  case (2 x)
  then show ?case by (simp add: split_on_none)
next
  case (3 x y ys)
  have "c \<notin> set x" using 3 by simp
  moreover have "split_on c (join [c] (y # ys)) = y # ys" using 3 by simp
  ultimately show ?case by (simp add: split_on_append)
qed

lemma join_Cons: "join sep (x # xs) = x @ concat (map (\<lambda>y. sep @ y) xs)"
  by (induction sep xs arbitrary: x rule: join.induct) auto

lemma parse_pair_query_pair: "CHR ''='' \<notin> set (fst kv) \<Longrightarrow> parse_pair (query_pair kv) = kv"
  by (cases kv) (simp add: parse_pair_def query_pair_def takeWhile_append1 dropWhile_append1
      takeWhile_eq_all_conv dropWhile_eq_Nil_conv dropWhile_append takeWhile_append)

lemma query_string_Cons:
  "query_string (kv # ps) = query_pair kv @ concat (map (\<lambda>p. ''&'' @ query_pair p) ps)"
  by (simp add: query_string_def join_Cons comp_def)

lemma query_pairs_query_string:
  assumes "CHR ''?'' \<notin> set path" and "ps \<noteq> []"
    and "\<And>k v. (k, v) \<in> set ps \<Longrightarrow> CHR ''='' \<notin> set k \<and> CHR ''&'' \<notin> set k \<and> CHR ''&'' \<notin> set v"
  shows "query_pairs (path @ ''?'' @ query_string ps) = ps"
proof -
  have q: "drop 1 (dropWhile (\<lambda>x. x \<noteq> CHR ''?'') (path @ ''?'' @ query_string ps)) = query_string ps"
    using assms(1) by (simp add: dropWhile_append)
  obtain kv rest where ps: "ps = kv # rest" using assms(2) by (cases ps) auto
  have ne: "query_string ps \<noteq> []" unfolding ps query_string_Cons by (simp add: query_pair_def)
  have amp: "\<And>p. p \<in> set (map query_pair ps) \<Longrightarrow> CHR ''&'' \<notin> set p"
    using assms(3) by (auto simp: query_pair_def)
  have "split_on CHR ''&'' (query_string ps) = map query_pair ps"
    unfolding query_string_def using assms(2) amp by (intro split_on_join) auto
  moreover have "map parse_pair (map query_pair ps) = ps"
    using assms(3) by (auto simp: parse_pair_query_pair intro!: map_idI)
  ultimately show ?thesis using q ne by (simp add: query_pairs_def Let_def)
qed

subsection \<open>The builders append what the pair lists render\<close>

lemma render_kept_num:
  "concat (map (\<lambda>p. ''&'' @ query_pair p) (kept_num k x))
     = if_truthy_num x (\<lambda>n. ''&'' @ k @ ''='' @ Number_toString n)"
  by (simp add: kept_num_def if_truthy_num_def query_pair_def split: option.splits)

lemma render_kept_raw:
  "concat (map (\<lambda>p. ''&'' @ query_pair p) (kept_raw k x))
     = if_truthy_str x (\<lambda>s. ''&'' @ k @ ''='' @ s)"
  by (simp add: kept_raw_def if_truthy_str_def query_pair_def split: option.splits)

lemma render_kept_flag:
  "concat (map (\<lambda>p. ''&'' @ query_pair p) (kept_flag k x))
     = if_defined x (\<lambda>b. ''&'' @ k @ ''='' @ bool_to_string b)"
  by (simp add: kept_flag_def if_defined_def query_pair_def split: option.splits)

lemmas render_kept = render_kept_num render_kept_raw render_kept_flag

lemma render_kept_text:
  "concat (map (\<lambda>p. ''&'' @ query_pair p) (kept_text k x))
     = (case x of None \<Rightarrow> [] | Some s \<Rightarrow> if s \<noteq> [] then (''&'' @ k @ ''='') @ percent_encoded s else [])"
  by (simp add: kept_text_def query_pair_def split: option.splits)

lemma text_piece:
  "if_truthy_text x ((@) pre)
     = (if well_formed x
        then Inr (case x of None \<Rightarrow> [] | Some s \<Rightarrow> if s \<noteq> [] then pre @ percent_encoded s else [])
        else Inl URIError)"
  by (simp add: if_truthy_text_def well_formed_def encodeURIComponent_cases split: option.splits)

lemma listControlPlanes_endpoint_pairs:
  "listControlPlanes_endpoint pageSize pageNumber filterName filterClusterType filterCloudGateway labels sortBy
     = (if well_formed filterName \<and> well_formed filterClusterType \<and> well_formed labels
           \<and> well_formed sortBy
        then Inr (''/control-planes?'' @ query_string
          (listControlPlanes_pairs pageSize pageNumber filterName filterClusterType filterCloudGateway labels sortBy))
        else Inl URIError)"
  unfolding listControlPlanes_endpoint_def listControlPlanes_pairs_def query_string_Cons
    map_append concat_append list.map concat.simps render_kept render_kept_text text_piece
  by (simp add: append_piece_def query_pair_def cong: option.case_cong if_cong)

lemma listDevPortalApis_endpoint_pairs:
  "listDevPortalApis_endpoint cp pageSize pageNumber filterName filterPublished sortBy
     = (if well_formed filterName \<and> well_formed sortBy
        then Inr (''/v3/apis?'' @ query_string
          (listDevPortalApis_pairs pageSize pageNumber filterName filterPublished sortBy))
        else Inl URIError)"
  unfolding listDevPortalApis_endpoint_def listDevPortalApis_pairs_def query_string_Cons
    map_append concat_append list.map concat.simps render_kept render_kept_text text_piece
  by (simp add: append_piece_def query_pair_def cong: option.case_cong if_cong)

lemma listDevPortalApplications_endpoint_pairs:
  "listDevPortalApplications_endpoint cp pageSize pageNumber filterName sortBy
     = (if well_formed filterName \<and> well_formed sortBy
        then Inr (''/v3/applications?'' @ query_string
          (listDevPortalApplications_pairs pageSize pageNumber filterName sortBy))
        else Inl URIError)"
  unfolding listDevPortalApplications_endpoint_def listDevPortalApplications_pairs_def
    query_string_Cons map_append concat_append list.map concat.simps render_kept render_kept_text text_piece
  by (simp add: append_piece_def query_pair_def cong: option.case_cong if_cong)

lemma listDevPortalSubscriptions_endpoint_pairs:
  "listDevPortalSubscriptions_endpoint cp applicationId apiId pageSize pageNumber status sortBy
     = (if well_formed sortBy
        then Inr (''/v3/subscriptions?'' @ query_string
          (listDevPortalSubscriptions_pairs applicationId apiId pageSize pageNumber status sortBy))
        else Inl URIError)"
  unfolding listDevPortalSubscriptions_endpoint_def listDevPortalSubscriptions_pairs_def
    query_string_Cons map_append concat_append list.map concat.simps render_kept render_kept_text text_piece
  by (simp add: append_piece_def query_pair_def if_truthy_str_def cong: option.case_cong if_cong)

lemma listDevPortalPortals_endpoint_pairs:
  "listDevPortalPortals_endpoint pageSize pageNumber
     = ''/v3/portals?'' @ query_string
         ((''page[size]'', Number_toString (default_to (js_int 10) pageSize))
          # kept_num ''page[number]'' pageNumber)"
  unfolding listDevPortalPortals_endpoint_def query_string_Cons map_append concat_append
    list.map concat.simps render_kept
  by (simp add: query_pair_def)

lemma listControlPlaneGroupMemberships_endpoint_pairs:
  "listControlPlaneGroupMemberships_endpoint groupId pageSize pageAfter
     = ''/control-planes/'' @ groupId @ ''/group-memberships?'' @ query_string
         ((''page[size]'', Number_toString (default_to (js_int 10) pageSize))
          # kept_raw ''page[after]'' pageAfter)"
  unfolding listControlPlaneGroupMemberships_endpoint_def query_string_Cons map_append
    concat_append list.map concat.simps render_kept
  by (simp add: query_pair_def if_truthy_str_def split: option.splits)

lemma listServices_endpoint_pairs:
  "listServices_endpoint cp sz offset
     = ''/control-planes/'' @ cp @ ''/core-entities/services?'' @ query_string
         ((''size'', Number_toString (default_to (js_int 100) sz)) # kept_raw ''offset'' offset)"
  unfolding listServices_endpoint_def query_string_Cons map_append concat_append list.map
    concat.simps render_kept
  by (simp add: query_pair_def if_truthy_str_def split: option.splits)

lemma listRoutes_endpoint_pairs:
  "listRoutes_endpoint cp sz offset
     = ''/control-planes/'' @ cp @ ''/core-entities/routes?'' @ query_string
         ((''size'', Number_toString (default_to (js_int 100) sz)) # kept_raw ''offset'' offset)"
  unfolding listRoutes_endpoint_def query_string_Cons map_append concat_append list.map
    concat.simps render_kept
  by (simp add: query_pair_def if_truthy_str_def split: option.splits)

lemma listConsumers_endpoint_pairs:
  "listConsumers_endpoint cp sz offset
     = ''/control-planes/'' @ cp @ ''/core-entities/consumers?'' @ query_string
         ((''size'', Number_toString (default_to (js_int 100) sz)) # kept_raw ''offset'' offset)"
  unfolding listConsumers_endpoint_def query_string_Cons map_append concat_append list.map
    concat.simps render_kept
  by (simp add: query_pair_def if_truthy_str_def split: option.splits)

lemma listPlugins_endpoint_pairs:
  "listPlugins_endpoint cp sz offset
     = ''/control-planes/'' @ cp @ ''/core-entities/plugins?'' @ query_string
         ((''size'', Number_toString (default_to (js_int 100) sz)) # kept_raw ''offset'' offset)"
  unfolding listPlugins_endpoint_def query_string_Cons map_append concat_append list.map
    concat.simps render_kept
  by (simp add: query_pair_def if_truthy_str_def split: option.splits)

subsection \<open>Reading the pairs back\<close>

lemma clean_kept_num: "clean_pair (k, []) \<Longrightarrow> list_all clean_pair (kept_num k x)"
  by (simp add: kept_num_def clean_pair_def Number_toString_no_amp split: option.splits)

lemma clean_kept_text: "clean_pair (k, []) \<Longrightarrow> list_all clean_pair (kept_text k x)"
  by (simp add: kept_text_def clean_pair_def percent_encoded_no_amp split: option.splits)

lemma clean_kept_flag: "clean_pair (k, []) \<Longrightarrow> list_all clean_pair (kept_flag k x)"
  by (simp add: kept_flag_def clean_pair_def bool_to_string_no_amp split: option.splits)

lemma clean_kept_raw: "clean_pair (k, []) \<Longrightarrow> amp_free x \<Longrightarrow> list_all clean_pair (kept_raw k x)"
  by (simp add: kept_raw_def clean_pair_def amp_free_def split: option.splits)

lemma clean_size: "clean_pair (k, []) \<Longrightarrow> clean_pair (k, Number_toString n)"
  by (simp add: clean_pair_def Number_toString_no_amp)

lemma clean_keys:
  "clean_pair (''page[size]'', [])"
  "clean_pair (''page[number]'', [])"
  "clean_pair (''filter[name][contains]'', [])"
  "clean_pair (''filter[cluster_type][eq]'', [])"
  "clean_pair (''filter[cloud_gateway]'', [])"
  "clean_pair (''filter[published]'', [])"
  "clean_pair (''filter[application.id][eq]'', [])"
  "clean_pair (''filter[api.id][eq]'', [])"
  "clean_pair (''filter[status][eq]'', [])"
  "clean_pair (''labels'', [])"
  "clean_pair (''sort'', [])"
  by (simp_all add: clean_pair_def)

lemma query_pairs_clean:
  assumes "CHR ''?'' \<notin> set path" and "ps \<noteq> []" and "list_all clean_pair ps"
  shows "query_pairs (path @ ''?'' @ query_string ps) = ps"
  using assms(1,2)
proof (rule query_pairs_query_string)
  fix k v assume "(k, v) \<in> set ps"
  with assms(3) have "clean_pair (k, v)" by (simp add: list_all_iff)
  then show "CHR ''='' \<notin> set k \<and> CHR ''&'' \<notin> set k \<and> CHR ''&'' \<notin> set v"
    by (simp add: clean_pair_def)
qed

lemmas clean_kept = clean_kept_num clean_kept_text clean_kept_flag clean_size clean_keys

lemma query_pairs_listControlPlanes:
  assumes "listControlPlanes_endpoint pageSize pageNumber filterName filterClusterType filterCloudGateway labels sortBy = Inr e"
  shows "query_pairs e
     = listControlPlanes_pairs pageSize pageNumber filterName filterClusterType filterCloudGateway labels sortBy"
proof -
  let ?ps = "listControlPlanes_pairs pageSize pageNumber filterName filterClusterType filterCloudGateway labels sortBy"
  have "query_pairs (''/control-planes'' @ ''?'' @ query_string ?ps) = ?ps"
    by (rule query_pairs_clean) (simp_all add: listControlPlanes_pairs_def clean_kept)
  moreover have "e = ''/control-planes?'' @ query_string ?ps"
    using assms by (simp add: listControlPlanes_endpoint_pairs split: if_splits)
  ultimately show ?thesis by simp
qed

lemma query_pairs_listDevPortalApis:
  assumes "listDevPortalApis_endpoint cp pageSize pageNumber filterName filterPublished sortBy = Inr e"
  shows "query_pairs e = listDevPortalApis_pairs pageSize pageNumber filterName filterPublished sortBy"
proof -
  let ?ps = "listDevPortalApis_pairs pageSize pageNumber filterName filterPublished sortBy"
  have "query_pairs (''/v3/apis'' @ ''?'' @ query_string ?ps) = ?ps"
    by (rule query_pairs_clean) (simp_all add: listDevPortalApis_pairs_def clean_kept)
  moreover have "e = ''/v3/apis?'' @ query_string ?ps"
    using assms by (simp add: listDevPortalApis_endpoint_pairs split: if_splits)
  ultimately show ?thesis by simp
qed

lemma query_pairs_listDevPortalApplications:
  assumes "listDevPortalApplications_endpoint cp pageSize pageNumber filterName sortBy = Inr e"
  shows "query_pairs e = listDevPortalApplications_pairs pageSize pageNumber filterName sortBy"
proof -
  let ?ps = "listDevPortalApplications_pairs pageSize pageNumber filterName sortBy"
  have "query_pairs (''/v3/applications'' @ ''?'' @ query_string ?ps) = ?ps"
    by (rule query_pairs_clean) (simp_all add: listDevPortalApplications_pairs_def clean_kept)
  moreover have "e = ''/v3/applications?'' @ query_string ?ps"
    using assms by (simp add: listDevPortalApplications_endpoint_pairs split: if_splits)
  ultimately show ?thesis by simp
qed

lemma query_pairs_listDevPortalSubscriptions:
  assumes "amp_free applicationId" and "amp_free apiId" and "amp_free status"
    and "listDevPortalSubscriptions_endpoint cp applicationId apiId pageSize pageNumber status sortBy = Inr e"
  shows "query_pairs e
     = listDevPortalSubscriptions_pairs applicationId apiId pageSize pageNumber status sortBy"
proof -
  let ?ps = "listDevPortalSubscriptions_pairs applicationId apiId pageSize pageNumber status sortBy"
  have "query_pairs (''/v3/subscriptions'' @ ''?'' @ query_string ?ps) = ?ps"
    by (rule query_pairs_clean)
      (simp_all add: listDevPortalSubscriptions_pairs_def clean_kept clean_kept_raw assms(1,2,3))
  moreover have "e = ''/v3/subscriptions?'' @ query_string ?ps"
    using assms(4) by (simp add: listDevPortalSubscriptions_endpoint_pairs split: if_splits)
  ultimately show ?thesis by simp
qed

section \<open>The request client: what is sent\<close>

lemma sent_kongRequest:
  "sent (snd (kongRequest this endpoint meth body w)) = sent w @ [request_config this endpoint meth body]"
  by (simp add: kongRequest_def axios_def Let_def split: sum.splits prod.splits)

lemma request_url_v2:
  "\<not> startsWith endpoint ''/v3'' \<Longrightarrow> request_url this endpoint = baseUrl this @ endpoint"
  by (simp add: request_url_def Let_def)

subsection \<open>The constructor\<close>

lemma resolved_eq: "or_default (or_else a b) d = resolved a b d"
  by (cases a; cases b) (auto simp: or_default_def or_else_def resolved_def no_value_def)

lemma constructor_eq:
  "KongApi_constructor options env
     = (\<lparr>baseUrl = ''https://'' @ resolved (opt_apiRegion options) (KONNECT_REGION env) ''us''
                    @ ''.api.konghq.com/v2'',
         apiKey = resolved (opt_apiKey options) (KONNECT_ACCESS_TOKEN env) []\<rparr>,
        if resolved (opt_apiKey options) (KONNECT_ACCESS_TOKEN env) [] = []
        then [credential_warning] else [])"
  by (simp add: KongApi_constructor_def Let_def resolved_eq API_REGIONS_US_def)

lemma resolved_cases:
  "\<not> no_value a \<Longrightarrow> a = Some (resolved a b d)"
  "no_value a \<Longrightarrow> \<not> no_value b \<Longrightarrow> b = Some (resolved a b d)"
  "no_value a \<Longrightarrow> no_value b \<Longrightarrow> resolved a b d = d"
  by (cases a; cases b; auto simp: resolved_def no_value_def)+

subsection \<open>Removing the version segment\<close>

lemma startsWith_v2_append:
  assumes "\<not> startsWith (c # cs) ''/v2''"
  shows "\<not> startsWith ((c # cs) @ CHR ''/'' # e) ''/v2''"
proof (cases cs)
  case Nil
  then show ?thesis by (simp add: startsWith_def)
next
  case (Cons d ds)
  with assms show ?thesis by (cases ds) (simp_all add: startsWith_def)
qed

lemma replace_version_segment:
  "\<not> str_includes h ''/v2'' \<Longrightarrow> replace (h @ ''/v2'') ''/v2'' [] = h"
proof (induction h)
  case Nil
  then show ?case by (simp add: startsWith_def)
next
  case (Cons c cs)
  then have 1: "\<not> startsWith (c # cs) ''/v2''" and 2: "\<not> str_includes cs ''/v2''" by simp_all
  from 1 have "\<not> startsWith ((c # cs) @ CHR ''/'' # ''v2'') ''/v2''"
    by (rule startsWith_v2_append)
  then have "replace ((c # cs) @ ''/v2'') ''/v2'' [] = c # replace (cs @ ''/v2'') ''/v2'' []"
    by simp
  with Cons.IH [OF 2] show ?case by simp
qed

lemma str_includes_v2_append:
  "\<not> str_includes h ''/v2'' \<Longrightarrow>
   str_includes (h @ CHR ''/'' # e) ''/v2'' = str_includes (CHR ''/'' # e) ''/v2''"
proof (induction h)
  case Nil
  then show ?case by simp
next
  case (Cons c cs)
  then have 1: "\<not> startsWith (c # cs) ''/v2''" and 2: "\<not> str_includes cs ''/v2''" by simp_all
  from 1 have "\<not> startsWith ((c # cs) @ CHR ''/'' # e) ''/v2''" by (rule startsWith_v2_append)
  with Cons.IH [OF 2] show ?case by simp
qed

lemma startsWith_v3: "startsWith e ''/v3'' \<Longrightarrow> \<exists>rest. e = CHR ''/'' # CHR ''v'' # CHR ''3'' # rest"
proof -
  assume "startsWith e ''/v3''"
  then have "take 3 e = ''/v3''" by (simp add: startsWith_def numeral_3_eq_3)
  then have "e = ''/v3'' @ drop 3 e" by (metis append_take_drop_id)
  then show ?thesis by auto
qed

lemma api_regions_hosts:
  "\<forall>r \<in> snd ` set API_REGIONS. \<not> str_includes (''https://'' @ r @ ''.api.konghq.com'') ''/v2''"
  by (simp add: API_REGIONS_def API_REGIONS_US_def startsWith_def)

text \<open>
  Claim C1, as amended. Let \<open>host\<close> be \<open>https://{region}.api.konghq.com\<close> for the region
  the constructor resolved. For an endpoint that does not begin with \<open>/v3\<close> the URL is
  the \<open>/v2\<close> base URL followed by the endpoint, whatever the region. For an endpoint
  that begins with \<open>/v3\<close>, and a host that does not itself contain \<open>/v2\<close> (so for every
  region of \<open>API_REGIONS\<close>), the URL is the host followed by the endpoint: the version
  segment of the base URL is gone, the URL starts with the host followed by \<open>/v3\<close>, and
  it holds \<open>/v2\<close> exactly when the endpoint itself does.
\<close>

theorem C1_url_resolution:
  assumes "this = fst (KongApi_constructor options env)"
    and "host = ''https://'' @ resolved (opt_apiRegion options) (KONNECT_REGION env) ''us''
                @ ''.api.konghq.com''"
  shows "cfg_url (request_config this endpoint meth body) = request_url this endpoint
       \<and> (\<not> startsWith endpoint ''/v3'' \<longrightarrow>
            request_url this endpoint = host @ ''/v2'' @ endpoint)
       \<and> (startsWith endpoint ''/v3'' \<and> \<not> str_includes host ''/v2'' \<longrightarrow>
            request_url this endpoint = host @ endpoint
            \<and> startsWith (request_url this endpoint) (host @ ''/v3'')
            \<and> str_includes (request_url this endpoint) ''/v2'' = str_includes endpoint ''/v2'')
       \<and> (\<forall>r \<in> snd ` set API_REGIONS.
            \<not> str_includes (''https://'' @ r @ ''.api.konghq.com'') ''/v2'')"
proof -
  have b: "baseUrl this = host @ ''/v2''"
    unfolding assms by (simp add: constructor_eq)
  have 1: "cfg_url (request_config this endpoint meth body) = request_url this endpoint"
    by (simp add: request_config_def Let_def)
  have 2: "request_url this endpoint = host @ ''/v2'' @ endpoint"
    if "\<not> startsWith endpoint ''/v3''"
    using that b by (simp add: request_url_v2)
  have 3: "request_url this endpoint = host @ endpoint
            \<and> startsWith (request_url this endpoint) (host @ ''/v3'')
            \<and> str_includes (request_url this endpoint) ''/v2'' = str_includes endpoint ''/v2''"
    if v3: "startsWith endpoint ''/v3''" and h: "\<not> str_includes host ''/v2''"
  proof -
    from v3 obtain rest where e: "endpoint = CHR ''/'' # CHR ''v'' # CHR ''3'' # rest"
      using startsWith_v3 by blast
    have u: "request_url this endpoint = host @ endpoint"
      using v3 b replace_version_segment [OF h] by (simp add: request_url_def Let_def)
    have s: "startsWith (host @ endpoint) (host @ ''/v3'')"
      unfolding e by (simp add: startsWith_def)
    have i: "str_includes (host @ endpoint) ''/v2'' = str_includes endpoint ''/v2''"
      unfolding e by (rule str_includes_v2_append [OF h])
    from u s i show ?thesis by simp
  qed
  from 1 2 3 api_regions_hosts show ?thesis by blast
qed

text \<open>Claim C1 at a concrete input: the client constructed without options in an
  environment that sets no region (so the region is \<open>us\<close>), at the dev-portal endpoint
  \<open>/v3/apis\<close> and at the analytics endpoint \<open>/api-requests\<close>.\<close>

theorem C1_url_resolution_witness:
  "\<not> str_includes ''https://us.api.konghq.com'' ''/v2''
   \<and> startsWith ''/v3/apis'' ''/v3''
   \<and> request_url (fst (KongApi_constructor \<lparr>opt_apiKey = None, opt_apiRegion = None\<rparr>
          \<lparr>KONNECT_REGION = None, KONNECT_ACCESS_TOKEN = Some ''kpat''\<rparr>)) ''/v3/apis''
       = ''https://us.api.konghq.com/v3/apis''
   \<and> \<not> startsWith ''/api-requests'' ''/v3''
   \<and> request_url (fst (KongApi_constructor \<lparr>opt_apiKey = None, opt_apiRegion = None\<rparr>
          \<lparr>KONNECT_REGION = None, KONNECT_ACCESS_TOKEN = Some ''kpat''\<rparr>)) ''/api-requests''
       = ''https://us.api.konghq.com/v2/api-requests''"
proof -
  let ?options = "\<lparr>opt_apiKey = None, opt_apiRegion = None\<rparr>"
  let ?env = "\<lparr>KONNECT_REGION = None, KONNECT_ACCESS_TOKEN = Some ''kpat''\<rparr>"
  have h: "''https://'' @ resolved (opt_apiRegion ?options) (KONNECT_REGION ?env) ''us''
             @ ''.api.konghq.com'' = ''https://us.api.konghq.com''"
    by (simp add: resolved_def no_value_def)
  have i: "\<not> str_includes ''https://us.api.konghq.com'' ''/v2''"
    by (simp add: startsWith_def)
  have v3: "startsWith ''/v3/apis'' ''/v3''" and v2: "\<not> startsWith ''/api-requests'' ''/v3''"
    by (simp_all add: startsWith_def)
  from C1_url_resolution [OF refl h [symmetric], of "''/v3/apis''"]
    C1_url_resolution [OF refl h [symmetric], of "''/api-requests''"] i v3 v2
  show ?thesis by simp
qed

text \<open>
  Claim C1, as stated, fails at two inputs. The endpoint \<open>/v3/v2\<close> begins with \<open>/v3\<close>,
  and the URL resolved for region \<open>us\<close>, \<open>https://us.api.konghq.com/v3/v2\<close>, contains
  \<open>/v2\<close>. And for the region \<open>v2-staging\<close> the first \<open>/v2\<close> of the base URL lies in the
  host: \<open>replace\<close> removes that one, and the URL of \<open>/v3/apis\<close> keeps the version
  segment in front of \<open>/v3\<close>.
\<close>

theorem C1_counterexample:
  "startsWith ''/v3/v2'' ''/v3''
   \<and> request_url (fst (KongApi_constructor \<lparr>opt_apiKey = None, opt_apiRegion = Some ''us''\<rparr>
          \<lparr>KONNECT_REGION = None, KONNECT_ACCESS_TOKEN = None\<rparr>)) ''/v3/v2''
       = ''https://us.api.konghq.com/v3/v2''
   \<and> str_includes (request_url (fst (KongApi_constructor \<lparr>opt_apiKey = None, opt_apiRegion = Some ''us''\<rparr>
          \<lparr>KONNECT_REGION = None, KONNECT_ACCESS_TOKEN = None\<rparr>)) ''/v3/v2'') ''/v2''
   \<and> startsWith ''/v3/apis'' ''/v3''
   \<and> request_url (fst (KongApi_constructor
          \<lparr>opt_apiKey = None, opt_apiRegion = Some ''v2-staging''\<rparr>
          \<lparr>KONNECT_REGION = None, KONNECT_ACCESS_TOKEN = None\<rparr>)) ''/v3/apis''
       = ''https:/-staging.api.konghq.com/v2/v3/apis''"
  by (simp add: startsWith_def request_url_def KongApi_constructor_def Let_def or_default_def
      or_else_def)

text \<open>
  Claim C9. Every call of \<open>kongRequest\<close> hands \<open>axios\<close> one configuration. Its headers
  are exactly \<open>Authorization: Bearer\<close> followed by the credential,
  \<open>Content-Type: application/json\<close> and \<open>Accept: application/json\<close>. Without a body
  argument the configuration carries no body (\<open>data: undefined\<close>), and a body it carries
  is the body argument.
\<close>

theorem C9_headers_and_body:
  "sent (snd (kongRequest this endpoint meth body w))
     = sent w @ [request_config this endpoint meth body]
   \<and> cfg_headers (request_config this endpoint meth body)
     = [(''Authorization'', ''Bearer '' @ apiKey this),
        (''Content-Type'', ''application/json''),
        (''Accept'', ''application/json'')]
   \<and> cfg_data (request_config this endpoint meth None) = None
   \<and> (cfg_data (request_config this endpoint meth body) = None
      \<or> cfg_data (request_config this endpoint meth body) = body)"
  by (simp add: request_config_def kongRequest_def axios_def Let_def
      split: option.splits sum.splits prod.splits)

text \<open>
  Claim C7, as amended. \<open>queryApiRequests\<close> sends one request: a \<open>POST\<close> to
  \<open>/api-requests\<close> under the \<open>/v2\<close> base URL, whose body is the object with the keys
  \<open>time_range\<close>, \<open>filters\<close> and \<open>size\<close>. The time-range argument is a plain string;
  the client wraps it, unchanged, as \<open>{type: "relative", time_range: timeRange}\<close>, so the
  tag is always \<open>relative\<close>. \<open>filters\<close> defaults to the empty list and \<open>size\<close> to 100.
\<close>

theorem C7_analytics_envelope:
  "sent (snd (queryApiRequests this timeRange filters maxResults w))
     = sent w @
       [\<lparr>cfg_method = ''POST'',
         cfg_url = baseUrl this @ ''/api-requests'',
         cfg_headers = [(''Authorization'', ''Bearer '' @ apiKey this),
                        (''Content-Type'', ''application/json''),
                        (''Accept'', ''application/json'')],
         cfg_data = Some (JObj
           [(''time_range'', JObj [(''type'', JStr ''relative''), (''time_range'', JStr timeRange)]),
            (''filters'', JArr (default_to [] filters)),
            (''size'', JNum (default_to (js_int 100) maxResults))])\<rparr>]"
proof -
  have "\<not> startsWith ''/api-requests'' ''/v3''" by (simp add: startsWith_def)
  then have "request_url this ''/api-requests'' = baseUrl this @ ''/api-requests''"
    by (rule request_url_v2)
  then show ?thesis
    by (simp add: queryApiRequests_def queryApiRequests_body_def sent_kongRequest
        request_config_def Let_def)
qed

text \<open>
  Claim C7, as stated, fails: for the time-range argument \<open>1H\<close> the \<open>time_range\<close> of the
  body is not the argument passed through but the object
  \<open>{type: "relative", time_range: "1H"}\<close> the client builds around it.
\<close>

theorem C7_counterexample:
  "get_property (queryApiRequests_body ''1H'' None None) ''time_range''
     = Some (JObj [(''type'', JStr ''relative''), (''time_range'', JStr ''1H'')])
   \<and> get_property (queryApiRequests_body ''1H'' None None) ''time_range'' \<noteq> Some (JStr ''1H'')"
  by (simp add: queryApiRequests_body_def)

section \<open>The request client: failures\<close>

lemma kongRequest_resolved:
  assumes "network w (length (sent w)) (request_config this endpoint meth body) = Responded st b"
    and "200 \<le> st \<and> st < 300"
  shows "fst (kongRequest this endpoint meth body w) = Inr b"
  using assms by (simp add: kongRequest_def axios_def settle_def Let_def)

lemma kongRequest_rejected:
  assumes "network w (length (sent w)) (request_config this endpoint meth body) = Responded st b"
    and "\<not> (200 \<le> st \<and> st < 300)"
  shows "fst (kongRequest this endpoint meth body w)
    = Inl (translate_error \<lparr>err_message = ''Request failed with status code '' @ Number_toString (js_int st),
                            err_response = Some \<lparr>resp_status = st, resp_data = b\<rparr>,
                            err_request = True\<rparr>)"
  using assms by (simp add: kongRequest_def axios_def settle_def Let_def)

lemma kongRequest_no_response:
  assumes "network w (length (sent w)) (request_config this endpoint meth body) = NoResponse msg"
  shows "fst (kongRequest this endpoint meth body w) = Inl (Error network_error_message)"
  using assms by (simp add: kongRequest_def axios_def settle_def translate_error_def Let_def)

lemma kongRequest_not_sent:
  assumes "network w (length (sent w)) (request_config this endpoint meth body) = NotSent msg"
  shows "fst (kongRequest this endpoint meth body w)
    = Inl (Error (''Request Error: '' @ msg @ ''. Please check your request parameters and try again.''))"
  using assms by (simp add: kongRequest_def axios_def settle_def translate_error_def Let_def)

text \<open>A response with a status outside \<open>200..299\<close> and a body other than \<open>null\<close>: the
  message starts with the status code.\<close>

lemma translate_error_status:
  assumes "b \<noteq> JNull"
  shows "\<exists>rest. translate_error \<lparr>err_message = t,
             err_response = Some \<lparr>resp_status = st, resp_data = b\<rparr>, err_request = rq\<rparr>
           = Error (''API Error (Status '' @ Number_toString (js_int st) @ '')'' @ rest)"
  using assms by (cases b) (simp_all add: translate_error_def Let_def split: option.splits)

lemma translate_error_message_field:
  assumes "get_property (JObj kvs) ''message'' = Some (JStr m)" and "m \<noteq> []"
  shows "translate_error \<lparr>err_message = t,
           err_response = Some \<lparr>resp_status = st, resp_data = JObj kvs\<rparr>, err_request = rq\<rparr>
         = Error (''API Error (Status '' @ Number_toString (js_int st) @ ''): '' @ m)"
  using assms by (simp add: translate_error_def Let_def)

lemma translate_error_serialized:
  assumes "get_property (JObj kvs) ''message'' = None"
  shows "translate_error \<lparr>err_message = t,
           err_response = Some \<lparr>resp_status = st, resp_data = JObj kvs\<rparr>, err_request = rq\<rparr>
         = Error (''API Error (Status '' @ Number_toString (js_int st) @ ''): '' @ JSON_stringify (JObj kvs))"
  using assms by (simp add: translate_error_def Let_def)

lemma translate_error_text:
  "translate_error \<lparr>err_message = t,
       err_response = Some \<lparr>resp_status = st, resp_data = JStr s\<rparr>, err_request = rq\<rparr>
     = Error (''API Error (Status '' @ Number_toString (js_int st) @ ''): '' @ take 200 s)"
  "200 < length s \<Longrightarrow> length (take 200 s) = 200"
  by (simp_all add: translate_error_def substring_def Let_def)

text \<open>
  Claim C3 says that a response with a status outside \<open>200..299\<close> makes \<open>kongRequest\<close>
  throw an error whose message includes the status code, with the message field of an
  object body (or its serialization) or the first 200 characters of a string body. The
  four lemmas above show this for every body but one. The claim fails on the code when
  the server answers with status 500 and the JSON body \<open>null\<close>: \<open>typeof null\<close> is
  \<open>object\<close>, so the \<open>catch\<close> block reads \<open>errorData.message\<close> of \<open>null\<close>, and the
  call ends with a \<open>TypeError\<close>, not with an \<open>Error\<close> whose message holds the status
  code.
\<close>

theorem C3_null_body:
  "fst (kongRequest this endpoint meth body
          \<lparr>network = (\<lambda>i config. Responded 500 JNull), sent = []\<rparr>)
     = Inl TypeError"
  by (simp add: kongRequest_def axios_def settle_def translate_error_def Let_def)

text \<open>The three messages differ in their first character, and the message for a request
  without a response holds no digit.\<close>

lemma failure_kinds_differ:
  "network_error_message \<noteq> ''API Error (Status '' @ rest"
  "network_error_message \<noteq> ''Request Error: '' @ rest'"
  "''Request Error: '' @ rest' \<noteq> ''API Error (Status '' @ rest"
  by (simp_all add: network_error_message_def)

lemma network_error_no_digit: "list_all (\<lambda>c. c \<notin> set dec_chars) network_error_message"
  by (simp add: network_error_message_def dec_chars_def)

lemma translate_error_response_kind:
  "translate_error \<lparr>err_message = t, err_response = Some resp, err_request = rq\<rparr>
     \<noteq> Error network_error_message
   \<and> translate_error \<lparr>err_message = t, err_response = Some resp, err_request = rq\<rparr>
     \<noteq> Error (''Request Error: '' @ m)"
  by (cases "resp_data resp")
    (simp_all add: translate_error_def Let_def network_error_message_def split: option.splits)

text \<open>
  Claim C4. A call fails in exactly the three ways a request can go wrong: the server
  answered with a status outside \<open>200..299\<close>, the request was sent and no response
  came, or the request was not sent. Without a response the error is the fixed network
  message, which holds no digit; an unsent request gives the message that wraps the
  transport's text; an answered request gives an error that is neither of the two
  (the \<open>API Error\<close> message, or the \<open>TypeError\<close> of claim C3 for the body \<open>null\<close>). In
  every case the call sends one request and ends with one result: there is no retry.
\<close>

theorem C4_failure_kinds:
  "(case network w (length (sent w)) (request_config this endpoint meth body) of
      Responded st b \<Rightarrow>
        if 200 \<le> st \<and> st < 300
        then fst (kongRequest this endpoint meth body w) = Inr b
        else (\<exists>e. fst (kongRequest this endpoint meth body w) = Inl e
                \<and> e \<noteq> Error network_error_message
                \<and> (\<forall>m. e \<noteq> Error (''Request Error: '' @ m)))
    | NoResponse msg \<Rightarrow>
        fst (kongRequest this endpoint meth body w) = Inl (Error network_error_message)
    | NotSent msg \<Rightarrow>
        fst (kongRequest this endpoint meth body w)
          = Inl (Error (''Request Error: '' @ msg
                        @ ''. Please check your request parameters and try again.'')))
   \<and> sent (snd (kongRequest this endpoint meth body w))
       = sent w @ [request_config this endpoint meth body]
   \<and> list_all (\<lambda>c. c \<notin> set dec_chars) network_error_message
   \<and> (\<forall>m. network_error_message \<noteq> ''Request Error: '' @ m)"
proof -
  let ?r = "network w (length (sent w)) (request_config this endpoint meth body)"
  let ?k = "kongRequest this endpoint meth body w"
  have kinds: "(case ?r of
      Responded st b \<Rightarrow>
        if 200 \<le> st \<and> st < 300
        then fst ?k = Inr b
        else (\<exists>e. fst ?k = Inl e
                \<and> e \<noteq> Error network_error_message
                \<and> (\<forall>m. e \<noteq> Error (''Request Error: '' @ m)))
    | NoResponse msg \<Rightarrow> fst ?k = Inl (Error network_error_message)
    | NotSent msg \<Rightarrow>
        fst ?k = Inl (Error (''Request Error: '' @ msg
                        @ ''. Please check your request parameters and try again.'')))"
  proof (cases ?r)
    case (Responded st b)
    show ?thesis
    proof (cases "200 \<le> st \<and> st < 300")
      case True
      with Responded kongRequest_resolved [OF Responded True] show ?thesis by simp
    next
      case False
      from kongRequest_rejected [OF Responded False] translate_error_response_kind
      have ex: "\<exists>e. fst ?k = Inl e \<and> e \<noteq> Error network_error_message
                \<and> (\<forall>m. e \<noteq> Error (''Request Error: '' @ m))"
        by simp
      have "(if 200 \<le> st \<and> st < 300 then fst ?k = Inr b
             else (\<exists>e. fst ?k = Inl e \<and> e \<noteq> Error network_error_message
                \<and> (\<forall>m. e \<noteq> Error (''Request Error: '' @ m))))"
        using False ex by (simp only: if_False)
      with Responded show ?thesis by (simp only: transport_result.case)
    qed
  next
    case (NoResponse msg)
    with kongRequest_no_response [OF NoResponse] show ?thesis by simp
  next
    case (NotSent msg)
    with kongRequest_not_sent [OF NotSent] show ?thesis by simp
  qed
  have "\<forall>m. network_error_message \<noteq> ''Request Error: '' @ m"
    by (simp add: network_error_message_def)
  with kinds sent_kongRequest network_error_no_digit show ?thesis by blast
qed

text \<open>Claim C4 at concrete inputs: a transport that times out, and one that refuses
  the URL.\<close>

theorem C4_failure_kinds_witness:
  "fst (kongRequest \<lparr>baseUrl = ''https://us.api.konghq.com/v2'', apiKey = ''kpat''\<rparr>
          ''/control-planes'' None None
          \<lparr>network = (\<lambda>i config. NoResponse ''timeout of 1000ms exceeded''), sent = []\<rparr>)
     = Inl (Error network_error_message)
   \<and> fst (kongRequest \<lparr>baseUrl = ''https://us.api.konghq.com/v2'', apiKey = ''kpat''\<rparr>
          ''/control-planes'' None None
          \<lparr>network = (\<lambda>i config. NotSent ''Invalid URL''), sent = []\<rparr>)
     = Inl (Error ''Request Error: Invalid URL. Please check your request parameters and try again.'')
   \<and> length (sent (snd (kongRequest \<lparr>baseUrl = ''https://us.api.konghq.com/v2'', apiKey = ''kpat''\<rparr>
          ''/control-planes'' None None
          \<lparr>network = (\<lambda>i config. NoResponse ''timeout of 1000ms exceeded''), sent = []\<rparr>))) = 1"
  using
    C4_failure_kinds [where w = "\<lparr>network = (\<lambda>i config. NoResponse ''timeout of 1000ms exceeded''), sent = []\<rparr>"
      and this = "\<lparr>baseUrl = ''https://us.api.konghq.com/v2'', apiKey = ''kpat''\<rparr>"
      and endpoint = "''/control-planes''" and meth = None and body = None]
    C4_failure_kinds [where w = "\<lparr>network = (\<lambda>i config. NotSent ''Invalid URL''), sent = []\<rparr>"
      and this = "\<lparr>baseUrl = ''https://us.api.konghq.com/v2'', apiKey = ''kpat''\<rparr>"
      and endpoint = "''/control-planes''" and meth = None and body = None]
  by simp

section \<open>A client in use: the configuration stays as constructed\<close>

lemma startsWith_append: "startsWith (a @ b) a"
  by (simp add: startsWith_def)

lemma request_config_from_client:
  "cfg_headers (request_config this ep m d)
     = [(''Authorization'', ''Bearer '' @ apiKey this),
        (''Content-Type'', ''application/json''),
        (''Accept'', ''application/json'')]
   \<and> (startsWith (cfg_url (request_config this ep m d)) (baseUrl this)
      \<or> startsWith (cfg_url (request_config this ep m d)) (replace (baseUrl this) ''/v2'' []))"
  by (simp add: request_config_def request_url_def Let_def startsWith_append)

lemma request_endpoint_sent:
  "sent (snd (request_endpoint this e w))
     = sent w @ (case e of Inl x \<Rightarrow> [] | Inr ep \<Rightarrow> [request_config this ep None None])"
  by (cases e) (simp_all add: request_endpoint_def sent_kongRequest)

lemma perform_sent:
  "\<exists>cfgs. sent (snd (perform this c w)) = sent w @ cfgs
         \<and> (\<forall>cfg \<in> set cfgs. \<exists>ep m d. cfg = request_config this ep m d)"
proof -
  have k: "\<exists>cfgs. sent (snd (kongRequest this ep m d w)) = sent w @ cfgs
         \<and> (\<forall>cfg \<in> set cfgs. \<exists>ep m d. cfg = request_config this ep m d)" for ep m d
    unfolding sent_kongRequest by auto
  have r: "\<exists>cfgs. sent (snd (request_endpoint this e w)) = sent w @ cfgs
         \<and> (\<forall>cfg \<in> set cfgs. \<exists>ep m d. cfg = request_config this ep m d)" for e
    unfolding request_endpoint_sent by (cases e) auto
  show ?thesis
  proof (cases c)
    case (KongRequest ep m d)
    then show ?thesis using k by simp
  next
    case (QueryApiRequests t f n)
    then show ?thesis using k by (simp add: queryApiRequests_def)
  next
    case (ListControlPlanes a b c d e f g)
    then show ?thesis using r by (simp add: listControlPlanes_def)
  next
    case (GetControlPlane a)
    then show ?thesis using k by (simp add: getControlPlane_def)
  next
    case (ListControlPlaneGroupMemberships a b c)
    then show ?thesis using k by (simp add: listControlPlaneGroupMemberships_def)
  next
    case (CheckControlPlaneGroupMembership a)
    then show ?thesis using k by (simp add: checkControlPlaneGroupMembership_def)
  next
    case (ListServices a b c)
    then show ?thesis using k by (simp add: listServices_def)
  next
    case (ListRoutes a b c)
    then show ?thesis using k by (simp add: listRoutes_def)
  next
    case (ListConsumers a b c)
    then show ?thesis using k by (simp add: listConsumers_def)
  next
    case (ListPlugins a b c)
    then show ?thesis using k by (simp add: listPlugins_def)
  next
    case (ListDevPortalApis a b c d e f)
    then show ?thesis using r by (simp add: listDevPortalApis_def)
  next
    case (CreateDevPortalApplication a b c)
    then show ?thesis using k by (simp add: createDevPortalApplication_def)
  next
    case (ListDevPortalPortals a b)
    then show ?thesis using k by (simp add: listDevPortalPortals_def)
  next
    case (ListDevPortalApplications a b c d e)
    then show ?thesis using r by (simp add: listDevPortalApplications_def)
  next
    case (CreateDevPortalSubscription a b c)
    then show ?thesis using k by (simp add: createDevPortalSubscription_def)
  next
    case (ListDevPortalSubscriptions a b c d e f g)
    then show ?thesis using r by (simp add: listDevPortalSubscriptions_def)
  next
    case (CreateDevPortalApiKey a b c d)
    then show ?thesis using k by (simp add: createDevPortalApiKey_def)
  qed
qed

lemma session_sent:
  "\<exists>cfgs. sent (snd (session this cs w)) = sent w @ cfgs
         \<and> (\<forall>cfg \<in> set cfgs. \<exists>ep m d. cfg = request_config this ep m d)"
proof (induction cs arbitrary: w)
  case Nil
  then show ?case by simp
next
  case (Cons c cs)
  obtain r w1 where p: "perform this c w = (r, w1)" by (cases "perform this c w")
  obtain rs w2 where s: "session this cs w1 = (rs, w2)" by (cases "session this cs w1")
  from perform_sent [of this c w] p obtain xs where
    xs: "sent w1 = sent w @ xs" "\<forall>cfg \<in> set xs. \<exists>ep m d. cfg = request_config this ep m d"
    by auto
  from Cons.IH [of w1] s obtain ys where
    ys: "sent w2 = sent w1 @ ys" "\<forall>cfg \<in> set ys. \<exists>ep m d. cfg = request_config this ep m d"
    by auto
  have "sent (snd (session this (c # cs) w)) = sent w @ (xs @ ys)"
    using p s xs(1) ys(1) by simp
  moreover have "\<forall>cfg \<in> set (xs @ ys). \<exists>ep m d. cfg = request_config this ep m d"
    using xs(2) ys(2) by auto
  ultimately show ?case by blast
qed

lemma session_length: "length (fst (session this cs w)) = length cs"
proof (induction cs arbitrary: w)
  case Nil
  then show ?case by simp
next
  case (Cons c cs)
  then show ?case by (simp add: case_prod_beta)
qed

text \<open>
  Claim C8. The constructor throws on no input: for all options and every environment
  it returns a client. Region and credential are resolved there, each from the
  option, else from the environment, else from its fallback (\<open>us\<close>, the empty
  string), and the warning is written exactly when the credential is empty. So with
  no credential in either place the credential is empty and the one line written is
  the warning, and with no region in either place the base URL is that of \<open>us\<close>.
  Thereafter the configuration is fixed: whatever calls are made on the client, in
  whatever world, each returns one result and every request sent carries the three
  headers with the credential as constructed and a URL under the base URL as
  constructed (with or without its version segment). A call on a client without a
  credential is sent all the same, and fails when the server answers with status 401.
\<close>

theorem C8_missing_credential:
  assumes "KongApi_constructor options env = (this, console)"
  shows "baseUrl this = ''https://'' @ resolved (opt_apiRegion options) (KONNECT_REGION env) ''us''
                        @ ''.api.konghq.com/v2''
       \<and> apiKey this = resolved (opt_apiKey options) (KONNECT_ACCESS_TOKEN env) []
       \<and> console = (if apiKey this = [] then [credential_warning] else [])
       \<and> (no_value (opt_apiKey options) \<and> no_value (KONNECT_ACCESS_TOKEN env)
            \<longrightarrow> apiKey this = [] \<and> console = [credential_warning])
       \<and> (no_value (opt_apiRegion options) \<and> no_value (KONNECT_REGION env)
            \<longrightarrow> baseUrl this = ''https://us.api.konghq.com/v2'')
       \<and> length (fst (session this calls w)) = length calls
       \<and> take (length (sent w)) (sent (snd (session this calls w))) = sent w
       \<and> (\<forall>cfg \<in> set (drop (length (sent w)) (sent (snd (session this calls w)))).
            cfg_headers cfg = [(''Authorization'', ''Bearer '' @ apiKey this),
                               (''Content-Type'', ''application/json''),
                               (''Accept'', ''application/json'')]
            \<and> (startsWith (cfg_url cfg) (baseUrl this)
               \<or> startsWith (cfg_url cfg) (replace (baseUrl this) ''/v2'' [])))
       \<and> sent (snd (kongRequest this endpoint meth body w))
           = sent w @ [request_config this endpoint meth body]
       \<and> (network w (length (sent w)) (request_config this endpoint meth body) = Responded 401 b
            \<longrightarrow> fst (kongRequest this endpoint meth body w)
                 = Inl (translate_error
                     \<lparr>err_message = ''Request failed with status code 401'',
                       err_response = Some \<lparr>resp_status = 401, resp_data = b\<rparr>,
                       err_request = True\<rparr>))"
proof -
  let ?region = "resolved (opt_apiRegion options) (KONNECT_REGION env) ''us''"
  let ?key = "resolved (opt_apiKey options) (KONNECT_ACCESS_TOKEN env) []"
  from assms have t: "this = \<lparr>baseUrl = ''https://'' @ ?region @ ''.api.konghq.com/v2'',
                               apiKey = ?key\<rparr>"
    and c: "console = (if ?key = [] then [credential_warning] else [])"
    by (simp_all add: constructor_eq)
  have 1: "baseUrl this = ''https://'' @ ?region @ ''.api.konghq.com/v2''" by (simp add: t)
  have 2: "apiKey this = ?key" by (simp add: t)
  have 3: "console = (if apiKey this = [] then [credential_warning] else [])"
    by (simp add: c 2)
  have 4: "apiKey this = [] \<and> console = [credential_warning]"
    if "no_value (opt_apiKey options) \<and> no_value (KONNECT_ACCESS_TOKEN env)"
    using that resolved_cases(3) [of "opt_apiKey options" "KONNECT_ACCESS_TOKEN env" "[]"]
    by (simp add: 2 c)
  have 5: "baseUrl this = ''https://us.api.konghq.com/v2''"
    if "no_value (opt_apiRegion options) \<and> no_value (KONNECT_REGION env)"
    using that resolved_cases(3) [of "opt_apiRegion options" "KONNECT_REGION env" "''us''"]
    by (simp add: 1)
  have 6: "length (fst (session this calls w)) = length calls"
    by (rule session_length)
  from session_sent [of this calls w] obtain cfgs where
    s: "sent (snd (session this calls w)) = sent w @ cfgs"
    and a: "\<forall>cfg \<in> set cfgs. \<exists>ep m d. cfg = request_config this ep m d"
    by blast
  have 7: "take (length (sent w)) (sent (snd (session this calls w))) = sent w"
    by (simp add: s)
  have 8: "\<forall>cfg \<in> set (drop (length (sent w)) (sent (snd (session this calls w)))).
            cfg_headers cfg = [(''Authorization'', ''Bearer '' @ apiKey this),
                               (''Content-Type'', ''application/json''),
                               (''Accept'', ''application/json'')]
            \<and> (startsWith (cfg_url cfg) (baseUrl this)
               \<or> startsWith (cfg_url cfg) (replace (baseUrl this) ''/v2'' []))"
  proof (intro ballI)
    fix cfg
    assume "cfg \<in> set (drop (length (sent w)) (sent (snd (session this calls w))))"
    then have "cfg \<in> set cfgs" by (simp add: s)
    with a obtain ep m d where "cfg = request_config this ep m d" by blast
    then show "cfg_headers cfg = [(''Authorization'', ''Bearer '' @ apiKey this),
                               (''Content-Type'', ''application/json''),
                               (''Accept'', ''application/json'')]
            \<and> (startsWith (cfg_url cfg) (baseUrl this)
               \<or> startsWith (cfg_url cfg) (replace (baseUrl this) ''/v2'' []))"
      by (simp only: request_config_from_client)
  qed
  have 9: "sent (snd (kongRequest this endpoint meth body w))
           = sent w @ [request_config this endpoint meth body]"
    by (rule sent_kongRequest)
  have n: "Number_toString (js_int 401) = ''401''"
    by (rule Number_toString_small)
  have 10: "fst (kongRequest this endpoint meth body w)
             = Inl (translate_error
                        \<lparr>err_message = ''Request failed with status code 401'',
                          err_response = Some \<lparr>resp_status = 401, resp_data = b\<rparr>,
                          err_request = True\<rparr>)"
    if "network w (length (sent w)) (request_config this endpoint meth body) = Responded 401 b"
    using kongRequest_rejected [OF that] by (simp add: n)
  from 1 2 3 4 5 6 7 8 9 10 show ?thesis by blast
qed

text \<open>Claim C8 at a concrete input: no option, an environment with the empty string for
  the credential and no region, and a server that answers every request with status
  401 and the body \<open>{"message": "Unauthorized"}\<close>. The client is that of region \<open>us\<close>
  with the empty credential, the warning is written, and the call of
  \<open>getControlPlane\<close> is sent with the header \<open>Authorization: Bearer\<close> and no token and
  fails with the status in its message.\<close>

theorem C8_missing_credential_witness:
  "KongApi_constructor \<lparr>opt_apiKey = None, opt_apiRegion = None\<rparr>
       \<lparr>KONNECT_REGION = None, KONNECT_ACCESS_TOKEN = Some []\<rparr>
     = (\<lparr>baseUrl = ''https://us.api.konghq.com/v2'', apiKey = []\<rparr>, [credential_warning])
   \<and> no_value None \<and> no_value (Some [])
   \<and> sent (snd (session \<lparr>baseUrl = ''https://us.api.konghq.com/v2'', apiKey = []\<rparr>
              [GetControlPlane ''cp1'']
              \<lparr>network = (\<lambda>i config. Responded 401 (JObj [(''message'', JStr ''Unauthorized'')])),
                sent = []\<rparr>))
       = [\<lparr>cfg_method = ''GET'', cfg_url = ''https://us.api.konghq.com/v2/control-planes/cp1'',
           cfg_headers = [(''Authorization'', ''Bearer ''),
                          (''Content-Type'', ''application/json''),
                          (''Accept'', ''application/json'')],
           cfg_data = None\<rparr>]
   \<and> fst (kongRequest \<lparr>baseUrl = ''https://us.api.konghq.com/v2'', apiKey = []\<rparr>
         ''/control-planes/cp1'' None None
         \<lparr>network = (\<lambda>i config. Responded 401 (JObj [(''message'', JStr ''Unauthorized'')])),
           sent = []\<rparr>)
     = Inl (Error ''API Error (Status 401): Unauthorized'')"
proof -
  let ?w = "\<lparr>network = (\<lambda>i config. Responded 401 (JObj [(''message'', JStr ''Unauthorized'')])),
             sent = []\<rparr>"
  let ?api = "\<lparr>baseUrl = ''https://us.api.konghq.com/v2'', apiKey = []\<rparr>"
  let ?options = "\<lparr>opt_apiKey = None, opt_apiRegion = None\<rparr>"
  let ?env = "\<lparr>KONNECT_REGION = None, KONNECT_ACCESS_TOKEN = Some []\<rparr>"
  have c: "KongApi_constructor ?options ?env = (?api, [credential_warning])"
    by (simp add: KongApi_constructor_def Let_def or_default_def or_else_def API_REGIONS_US_def)
  have v: "no_value None \<and> no_value (Some [])"
    by (simp add: no_value_def)
  have n: "Number_toString (js_int 401) = ''401''"
    by (rule Number_toString_small)
  have u: "\<not> startsWith ''/control-planes/cp1'' ''/v3''"
    by (simp add: startsWith_def)
  have s: "sent (snd (session ?api [GetControlPlane ''cp1''] ?w))
       = [\<lparr>cfg_method = ''GET'', cfg_url = ''https://us.api.konghq.com/v2/control-planes/cp1'',
           cfg_headers = [(''Authorization'', ''Bearer ''),
                          (''Content-Type'', ''application/json''),
                          (''Accept'', ''application/json'')],
           cfg_data = None\<rparr>]"
    by (simp add: getControlPlane_def sent_kongRequest request_config_def Let_def
        request_url_v2 [OF u] case_prod_beta)
  note t = C8_missing_credential [OF c, of "[GetControlPlane ''cp1'']" ?w
      "''/control-planes/cp1''" None None "JObj [(''message'', JStr ''Unauthorized'')]"]
  from t have "fst (kongRequest ?api ''/control-planes/cp1'' None None ?w)
      = Inl (translate_error
               \<lparr>err_message = ''Request failed with status code 401'',
                 err_response = Some \<lparr>resp_status = 401,
                                       resp_data = JObj [(''message'', JStr ''Unauthorized'')]\<rparr>,
                 err_request = True\<rparr>)"
    by simp
  then have r: "fst (kongRequest ?api ''/control-planes/cp1'' None None ?w)
      = Inl (Error ''API Error (Status 401): Unauthorized'')"
    by (simp add: translate_error_def Let_def n)
  from c v s r show ?thesis by simp
qed

section \<open>The query builders: the claims\<close>

lemma request_endpoint_if:
  "request_endpoint this (if c then Inr e else Inl x) w
     = (if c then kongRequest this e None None w else (Inl x, w))"
  by (simp add: request_endpoint_def)

text \<open>
  Claim C2, as amended. Every query builder writes one \<open>?\<close>, then the size pair
  (\<open>page[size]\<close>, 10 when the argument is left out; \<open>size\<close>, 100 when left out), then
  one \<open>&key=value\<close> for each optional argument that is given and truthy (a number other
  than 0 and \<open>NaN\<close>, a string other than the empty one) or, for the two boolean
  filters, given at all. The order is the fixed order of the pair lists: the declared
  parameter order, except that \<open>listDevPortalSubscriptions\<close> puts \<open>page[size]\<close> and
  \<open>page[number]\<close> before the application and API filters. Name, cluster-type, labels
  and sort values are percent-encoded; cursors, identifiers and the status are appended
  as they are. When one of the values to encode holds a surrogate without its partner,
  the builder throws \<open>URIError\<close> and the operation ends with that error and sends
  nothing. Where every value is rendered or encoded by the builder, reading the
  endpoint back gives exactly these pairs; for \<open>listDevPortalSubscriptions\<close> it does
  when the raw values hold no \<open>&\<close>.
\<close>

theorem C2_query_strings:
  "listControlPlanes_endpoint pageSize pageNumber filterName filterClusterType filterCloudGateway labels sortBy
      = (if well_formed filterName \<and> well_formed filterClusterType \<and> well_formed labels
            \<and> well_formed sortBy
         then Inr (''/control-planes?'' @ query_string
           (listControlPlanes_pairs pageSize pageNumber filterName filterClusterType filterCloudGateway labels sortBy))
         else Inl URIError)
   \<and> listControlPlanes this pageSize pageNumber filterName filterClusterType filterCloudGateway labels sortBy w
      = (if well_formed filterName \<and> well_formed filterClusterType \<and> well_formed labels
            \<and> well_formed sortBy
         then kongRequest this (''/control-planes?'' @ query_string
           (listControlPlanes_pairs pageSize pageNumber filterName filterClusterType filterCloudGateway labels sortBy))
           None None w
         else (Inl URIError, w))
   \<and> (\<forall>e. listControlPlanes_endpoint pageSize pageNumber filterName filterClusterType filterCloudGateway labels sortBy = Inr e
        \<longrightarrow> query_pairs e
            = listControlPlanes_pairs pageSize pageNumber filterName filterClusterType filterCloudGateway labels sortBy)
   \<and> listControlPlaneGroupMemberships_endpoint groupId pageSize pageAfter
      = ''/control-planes/'' @ groupId @ ''/group-memberships?'' @ query_string
          ((''page[size]'', Number_toString (default_to (js_int 10) pageSize))
           # kept_raw ''page[after]'' pageAfter)
   \<and> listServices_endpoint cp sz offset
      = ''/control-planes/'' @ cp @ ''/core-entities/services?'' @ query_string
          ((''size'', Number_toString (default_to (js_int 100) sz)) # kept_raw ''offset'' offset)
   \<and> listRoutes_endpoint cp sz offset
      = ''/control-planes/'' @ cp @ ''/core-entities/routes?'' @ query_string
          ((''size'', Number_toString (default_to (js_int 100) sz)) # kept_raw ''offset'' offset)
   \<and> listConsumers_endpoint cp sz offset
      = ''/control-planes/'' @ cp @ ''/core-entities/consumers?'' @ query_string
          ((''size'', Number_toString (default_to (js_int 100) sz)) # kept_raw ''offset'' offset)
   \<and> listPlugins_endpoint cp sz offset
      = ''/control-planes/'' @ cp @ ''/core-entities/plugins?'' @ query_string
          ((''size'', Number_toString (default_to (js_int 100) sz)) # kept_raw ''offset'' offset)
   \<and> listDevPortalApis_endpoint cp pageSize pageNumber filterName filterPublished sortBy
      = (if well_formed filterName \<and> well_formed sortBy
         then Inr (''/v3/apis?'' @ query_string
           (listDevPortalApis_pairs pageSize pageNumber filterName filterPublished sortBy))
         else Inl URIError)
   \<and> listDevPortalApis this cp pageSize pageNumber filterName filterPublished sortBy w
      = (if well_formed filterName \<and> well_formed sortBy
         then kongRequest this (''/v3/apis?'' @ query_string
           (listDevPortalApis_pairs pageSize pageNumber filterName filterPublished sortBy)) None None w
         else (Inl URIError, w))
   \<and> (\<forall>e. listDevPortalApis_endpoint cp pageSize pageNumber filterName filterPublished sortBy = Inr e
        \<longrightarrow> query_pairs e
            = listDevPortalApis_pairs pageSize pageNumber filterName filterPublished sortBy)
   \<and> listDevPortalPortals_endpoint pageSize pageNumber
      = ''/v3/portals?'' @ query_string
          ((''page[size]'', Number_toString (default_to (js_int 10) pageSize))
           # kept_num ''page[number]'' pageNumber)
   \<and> listDevPortalApplications_endpoint cp pageSize pageNumber filterName sortBy
      = (if well_formed filterName \<and> well_formed sortBy
         then Inr (''/v3/applications?'' @ query_string
           (listDevPortalApplications_pairs pageSize pageNumber filterName sortBy))
         else Inl URIError)
   \<and> listDevPortalApplications this cp pageSize pageNumber filterName sortBy w
      = (if well_formed filterName \<and> well_formed sortBy
         then kongRequest this (''/v3/applications?'' @ query_string
           (listDevPortalApplications_pairs pageSize pageNumber filterName sortBy)) None None w
         else (Inl URIError, w))
   \<and> (\<forall>e. listDevPortalApplications_endpoint cp pageSize pageNumber filterName sortBy = Inr e
        \<longrightarrow> query_pairs e
            = listDevPortalApplications_pairs pageSize pageNumber filterName sortBy)
   \<and> listDevPortalSubscriptions_endpoint cp applicationId apiId pageSize pageNumber status sortBy
      = (if well_formed sortBy
         then Inr (''/v3/subscriptions?'' @ query_string
           (listDevPortalSubscriptions_pairs applicationId apiId pageSize pageNumber status sortBy))
         else Inl URIError)
   \<and> listDevPortalSubscriptions this cp applicationId apiId pageSize pageNumber status sortBy w
      = (if well_formed sortBy
         then kongRequest this (''/v3/subscriptions?'' @ query_string
           (listDevPortalSubscriptions_pairs applicationId apiId pageSize pageNumber status sortBy))
           None None w
         else (Inl URIError, w))
   \<and> (\<forall>e. amp_free applicationId \<and> amp_free apiId \<and> amp_free status
          \<and> listDevPortalSubscriptions_endpoint cp applicationId apiId pageSize pageNumber status sortBy = Inr e
        \<longrightarrow> query_pairs e
            = listDevPortalSubscriptions_pairs applicationId apiId pageSize pageNumber status sortBy)"
  apply (intro conjI impI allI)
  apply (rule listControlPlanes_endpoint_pairs)
  apply (simp only: listControlPlanes_def listControlPlanes_endpoint_pairs request_endpoint_if)
  apply (erule query_pairs_listControlPlanes)
  apply (rule listControlPlaneGroupMemberships_endpoint_pairs)
  apply (rule listServices_endpoint_pairs)
  apply (rule listRoutes_endpoint_pairs)
  apply (rule listConsumers_endpoint_pairs)
  apply (rule listPlugins_endpoint_pairs)
  apply (rule listDevPortalApis_endpoint_pairs)
  apply (simp only: listDevPortalApis_def listDevPortalApis_endpoint_pairs request_endpoint_if)
  apply (erule query_pairs_listDevPortalApis)
  apply (rule listDevPortalPortals_endpoint_pairs)
  apply (rule listDevPortalApplications_endpoint_pairs)
  apply (simp only: listDevPortalApplications_def listDevPortalApplications_endpoint_pairs
      request_endpoint_if)
  apply (erule query_pairs_listDevPortalApplications)
  apply (rule listDevPortalSubscriptions_endpoint_pairs)
  apply (simp only: listDevPortalSubscriptions_def listDevPortalSubscriptions_endpoint_pairs
      request_endpoint_if)
  apply (rule query_pairs_listDevPortalSubscriptions; blast)
  done

text \<open>Claim C2 at a concrete input: a subscription listing with an application, a page
  number and a status. The raw values hold no \<open>&\<close>, the builder returns an endpoint,
  and the endpoint reads back as four pairs.\<close>

theorem C2_query_strings_witness:
  "amp_free (Some ''app'') \<and> amp_free None \<and> amp_free (Some ''active'')
   \<and> listDevPortalSubscriptions_endpoint ''cp'' (Some ''app'') None None (Some (js_int 2))
        (Some ''active'') None
     = Inr ''/v3/subscriptions?page[size]=10&page[number]=2&filter[application.id][eq]=app&filter[status][eq]=active''
   \<and> query_pairs
        ''/v3/subscriptions?page[size]=10&page[number]=2&filter[application.id][eq]=app&filter[status][eq]=active''
     = [(''page[size]'', ''10''), (''page[number]'', ''2''),
        (''filter[application.id][eq]'', ''app''), (''filter[status][eq]'', ''active'')]"
proof -
  let ?e = "''/v3/subscriptions?page[size]=10&page[number]=2&filter[application.id][eq]=app&filter[status][eq]=active''"
  have a: "amp_free (Some ''app'') \<and> amp_free None \<and> amp_free (Some ''active'')"
    by (simp add: amp_free_def)
  have e: "listDevPortalSubscriptions_endpoint ''cp'' (Some ''app'') None None (Some (js_int 2))
        (Some ''active'') None = Inr ?e"
    by code_simp
  have p: "listDevPortalSubscriptions_pairs (Some ''app'') None None (Some (js_int 2))
        (Some ''active'') None
     = [(''page[size]'', ''10''), (''page[number]'', ''2''),
        (''filter[application.id][eq]'', ''app''), (''filter[status][eq]'', ''active'')]"
    by code_simp
  from C2_query_strings [where applicationId = "Some ''app''" and apiId = None
      and status = "Some ''active''" and cp = "''cp''" and pageSize = None
      and pageNumber = "Some (js_int 2)" and sortBy = None] a e
  have "query_pairs ?e
     = listDevPortalSubscriptions_pairs (Some ''app'') None None (Some (js_int 2))
         (Some ''active'') None"
    by blast
  with a e p show ?thesis by simp
qed

text \<open>
  Claim C2, as stated, fails. \<open>listControlPlanes\<close> called with the page number 0 has
  no \<open>page[number]\<close> pair although the argument is given; called with no argument at
  all it has a \<open>page[size]\<close> pair although none is given;
  \<open>listDevPortalSubscriptions\<close> puts the page pairs before the application filter,
  against the declared parameter order; and \<open>listControlPlanes\<close> called with the name
  filter \<open>"\ud800"\<close>, a surrogate without its partner, builds no endpoint at all: it
  throws \<open>URIError\<close>, and nothing is sent.
\<close>

theorem C2_counterexample:
  "listControlPlanes_endpoint (Some (js_int 10)) (Some (js_int 0)) None None None None None
     = Inr ''/control-planes?page[size]=10''
   \<and> ''page[number]'' \<notin> fst ` set (query_pairs ''/control-planes?page[size]=10'')
   \<and> listControlPlanes_endpoint None None None None None None None
     = Inr ''/control-planes?page[size]=10''
   \<and> query_pairs ''/control-planes?page[size]=10'' = [(''page[size]'', ''10'')]
   \<and> listDevPortalSubscriptions_endpoint ''cp'' (Some ''app'') None (Some (js_int 10))
        (Some (js_int 2)) None None
     = Inr ''/v3/subscriptions?page[size]=10&page[number]=2&filter[application.id][eq]=app''
   \<and> query_pairs ''/v3/subscriptions?page[size]=10&page[number]=2&filter[application.id][eq]=app''
     = [(''page[size]'', ''10''), (''page[number]'', ''2''),
        (''filter[application.id][eq]'', ''app'')]
   \<and> listControlPlanes_endpoint (Some (js_int 10)) None (Some [0xD800]) None None None None
     = Inl URIError
   \<and> listControlPlanes \<lparr>baseUrl = ''https://us.api.konghq.com/v2'', apiKey = ''kpat''\<rparr>
        (Some (js_int 10)) None (Some [0xD800]) None None None None
        \<lparr>network = (\<lambda>i config. Responded 200 (JObj [])), sent = []\<rparr>
     = (Inl URIError, \<lparr>network = (\<lambda>i config. Responded 200 (JObj [])), sent = []\<rparr>)"
proof -
  have 1: "listControlPlanes_endpoint (Some (js_int 10)) (Some (js_int 0)) None None None None None
     = Inr ''/control-planes?page[size]=10''"
    by code_simp
  have 2: "''page[number]'' \<notin> fst ` set (query_pairs ''/control-planes?page[size]=10'')"
    by code_simp
  have 3: "listControlPlanes_endpoint None None None None None None None
     = Inr ''/control-planes?page[size]=10''"
    by code_simp
  have 4: "query_pairs ''/control-planes?page[size]=10'' = [(''page[size]'', ''10'')]"
    by code_simp
  have 5: "listDevPortalSubscriptions_endpoint ''cp'' (Some ''app'') None (Some (js_int 10))
        (Some (js_int 2)) None None
     = Inr ''/v3/subscriptions?page[size]=10&page[number]=2&filter[application.id][eq]=app''"
    by code_simp
  have 6: "query_pairs ''/v3/subscriptions?page[size]=10&page[number]=2&filter[application.id][eq]=app''
     = [(''page[size]'', ''10''), (''page[number]'', ''2''),
        (''filter[application.id][eq]'', ''app'')]"
    by code_simp
  have "has_lone_surrogate [0xD800]"
    by simp
  then have "\<not> well_formed (Some [0xD800])"
    by (simp add: well_formed_def)
  then have 7: "listControlPlanes_endpoint (Some (js_int 10)) None (Some [0xD800]) None None None None
     = Inl URIError"
    by (simp add: listControlPlanes_endpoint_pairs)
  have 8: "listControlPlanes \<lparr>baseUrl = ''https://us.api.konghq.com/v2'', apiKey = ''kpat''\<rparr>
        (Some (js_int 10)) None (Some [0xD800]) None None None None
        \<lparr>network = (\<lambda>i config. Responded 200 (JObj [])), sent = []\<rparr>
     = (Inl URIError, \<lparr>network = (\<lambda>i config. Responded 200 (JObj [])), sent = []\<rparr>)"
    by (simp add: listControlPlanes_def request_endpoint_def 7)
  from 1 2 3 4 5 6 7 8 show ?thesis by (intro conjI)
qed

lemma if_truthy_str_drop_empty: "if_truthy_str (drop_empty x) f = if_truthy_str x f"
  by (simp add: if_truthy_str_def drop_empty_def split: option.splits)

lemma if_truthy_text_drop_empty: "if_truthy_text (drop_empty x) f = if_truthy_text x f"
  by (simp add: if_truthy_text_def drop_empty_def split: option.splits)

lemma number_truthy_zero: "\<not> number_truthy (js_int 0)"
  by (simp add: number_truthy_def js_int_def)

lemma if_truthy_num_zero: "if_truthy_num (Some (js_int 0)) f = if_truthy_num None f"
  by (simp add: if_truthy_num_def number_truthy_zero)

lemma kept_num_zero: "kept_num k (Some (js_int 0)) = []"
  by (simp add: kept_num_def number_truthy_zero)

lemma page_number_left_out:
  "''page[number]'' \<notin> fst ` set
     (listControlPlanes_pairs pageSize (Some (js_int 0)) filterName filterClusterType filterCloudGateway labels sortBy)"
  by (auto simp: listControlPlanes_pairs_def kept_num_zero kept_text_def kept_flag_def
      split: option.splits if_splits)

lemma cloud_gateway_kept:
  "(''filter[cloud_gateway]'', ''false'') \<in> set
     (listControlPlanes_pairs pageSize pageNumber filterName filterClusterType (Some False) labels sortBy)"
  by (simp add: listControlPlanes_pairs_def kept_flag_def bool_to_string_def)

text \<open>
  Claim C10. In \<open>listControlPlanes\<close> the page number 0 gives the endpoint of a call
  without page number, which has no \<open>page[number]\<close> pair, whereas the cloud-gateway
  filter \<open>false\<close> gives the pair \<open>filter[cloud_gateway]=false\<close> (the builder returns
  an endpoint unless one of the texts to encode is ill-formed). In
  \<open>createDevPortalApiKey\<close> the expiry 0 gives a body without \<open>expires_in\<close>. And in every
  builder a string argument given as the empty string gives the endpoint of a call
  without that argument.
\<close>

theorem C10_falsy_arguments:
  "listControlPlanes_endpoint pageSize (Some (js_int 0)) filterName filterClusterType filterCloudGateway labels sortBy
      = listControlPlanes_endpoint pageSize None filterName filterClusterType filterCloudGateway labels sortBy
   \<and> (case listControlPlanes_endpoint pageSize (Some (js_int 0)) filterName filterClusterType filterCloudGateway labels sortBy of
        Inr e \<Rightarrow> ''page[number]'' \<notin> fst ` set (query_pairs e)
      | Inl err \<Rightarrow> \<not> (well_formed filterName \<and> well_formed filterClusterType
                     \<and> well_formed labels \<and> well_formed sortBy))
   \<and> (case listControlPlanes_endpoint pageSize pageNumber filterName filterClusterType (Some False) labels sortBy of
        Inr e \<Rightarrow> (''filter[cloud_gateway]'', ''false'') \<in> set (query_pairs e)
      | Inl err \<Rightarrow> \<not> (well_formed filterName \<and> well_formed filterClusterType
                     \<and> well_formed labels \<and> well_formed sortBy))
   \<and> createDevPortalApiKey_data cp subscriptionId keyName (Some (js_int 0))
      = JObj [(''name'', JStr keyName), (''subscription'', JObj [(''id'', JStr subscriptionId)])]
   \<and> get_property (createDevPortalApiKey_data cp subscriptionId keyName (Some (js_int 0))) ''expires_in'' = None
   \<and> listControlPlanes_endpoint pageSize pageNumber filterName filterClusterType filterCloudGateway labels sortBy
      = listControlPlanes_endpoint pageSize pageNumber (drop_empty filterName)
          (drop_empty filterClusterType) filterCloudGateway (drop_empty labels) (drop_empty sortBy)
   \<and> listControlPlaneGroupMemberships_endpoint groupId pageSize pageAfter
      = listControlPlaneGroupMemberships_endpoint groupId pageSize (drop_empty pageAfter)
   \<and> listServices_endpoint cp sz offset = listServices_endpoint cp sz (drop_empty offset)
   \<and> listRoutes_endpoint cp sz offset = listRoutes_endpoint cp sz (drop_empty offset)
   \<and> listConsumers_endpoint cp sz offset = listConsumers_endpoint cp sz (drop_empty offset)
   \<and> listPlugins_endpoint cp sz offset = listPlugins_endpoint cp sz (drop_empty offset)
   \<and> listDevPortalApis_endpoint cp pageSize pageNumber filterName filterPublished sortBy
      = listDevPortalApis_endpoint cp pageSize pageNumber (drop_empty filterName) filterPublished
          (drop_empty sortBy)
   \<and> listDevPortalApplications_endpoint cp pageSize pageNumber filterName sortBy
      = listDevPortalApplications_endpoint cp pageSize pageNumber (drop_empty filterName)
          (drop_empty sortBy)
   \<and> listDevPortalSubscriptions_endpoint cp applicationId apiId pageSize pageNumber status sortBy
      = listDevPortalSubscriptions_endpoint cp (drop_empty applicationId) (drop_empty apiId)
          pageSize pageNumber (drop_empty status) (drop_empty sortBy)"
proof -
  have 1: "listControlPlanes_endpoint pageSize (Some (js_int 0)) filterName filterClusterType filterCloudGateway labels sortBy
      = listControlPlanes_endpoint pageSize None filterName filterClusterType filterCloudGateway labels sortBy"
    by (simp only: listControlPlanes_endpoint_def if_truthy_num_zero)
  have 2: "(case listControlPlanes_endpoint pageSize (Some (js_int 0)) filterName filterClusterType filterCloudGateway labels sortBy of
        Inr e \<Rightarrow> ''page[number]'' \<notin> fst ` set (query_pairs e)
      | Inl err \<Rightarrow> \<not> (well_formed filterName \<and> well_formed filterClusterType
                     \<and> well_formed labels \<and> well_formed sortBy))"
  proof (cases "listControlPlanes_endpoint pageSize (Some (js_int 0)) filterName filterClusterType filterCloudGateway labels sortBy")
    case (Inl err)
    then show ?thesis by (simp add: listControlPlanes_endpoint_pairs split: if_splits)
  next
    case (Inr e)
    have "''page[number]'' \<notin> fst ` set (query_pairs e)"
      unfolding query_pairs_listControlPlanes [OF Inr] by (rule page_number_left_out)
    then show ?thesis by (simp add: Inr)
  qed
  have 3: "(case listControlPlanes_endpoint pageSize pageNumber filterName filterClusterType (Some False) labels sortBy of
        Inr e \<Rightarrow> (''filter[cloud_gateway]'', ''false'') \<in> set (query_pairs e)
      | Inl err \<Rightarrow> \<not> (well_formed filterName \<and> well_formed filterClusterType
                     \<and> well_formed labels \<and> well_formed sortBy))"
  proof (cases "listControlPlanes_endpoint pageSize pageNumber filterName filterClusterType (Some False) labels sortBy")
    case (Inl err)
    then show ?thesis by (simp add: listControlPlanes_endpoint_pairs split: if_splits)
  next
    case (Inr e)
    have "(''filter[cloud_gateway]'', ''false'') \<in> set (query_pairs e)"
      unfolding query_pairs_listControlPlanes [OF Inr] by (rule cloud_gateway_kept)
    then show ?thesis by (simp add: Inr)
  qed
  have 4: "createDevPortalApiKey_data cp subscriptionId keyName (Some (js_int 0))
      = JObj [(''name'', JStr keyName), (''subscription'', JObj [(''id'', JStr subscriptionId)])]"
    by (simp add: createDevPortalApiKey_data_def number_truthy_zero)
  have 5: "get_property (createDevPortalApiKey_data cp subscriptionId keyName (Some (js_int 0))) ''expires_in'' = None"
    by (simp add: createDevPortalApiKey_data_def number_truthy_zero)
  have 6: "listControlPlanes_endpoint pageSize pageNumber filterName filterClusterType filterCloudGateway labels sortBy
      = listControlPlanes_endpoint pageSize pageNumber (drop_empty filterName)
          (drop_empty filterClusterType) filterCloudGateway (drop_empty labels) (drop_empty sortBy)"
    by (simp only: listControlPlanes_endpoint_def if_truthy_text_drop_empty)
  have 7: "listControlPlaneGroupMemberships_endpoint groupId pageSize pageAfter
      = listControlPlaneGroupMemberships_endpoint groupId pageSize (drop_empty pageAfter)"
    by (simp only: listControlPlaneGroupMemberships_endpoint_def if_truthy_str_drop_empty)
  have 8: "listServices_endpoint cp sz offset = listServices_endpoint cp sz (drop_empty offset)"
    "listRoutes_endpoint cp sz offset = listRoutes_endpoint cp sz (drop_empty offset)"
    "listConsumers_endpoint cp sz offset = listConsumers_endpoint cp sz (drop_empty offset)"
    "listPlugins_endpoint cp sz offset = listPlugins_endpoint cp sz (drop_empty offset)"
    by (simp_all only: listServices_endpoint_def listRoutes_endpoint_def listConsumers_endpoint_def
        listPlugins_endpoint_def if_truthy_str_drop_empty)
  have 9: "listDevPortalApis_endpoint cp pageSize pageNumber filterName filterPublished sortBy
      = listDevPortalApis_endpoint cp pageSize pageNumber (drop_empty filterName) filterPublished
          (drop_empty sortBy)"
    by (simp only: listDevPortalApis_endpoint_def if_truthy_text_drop_empty)
  have 10: "listDevPortalApplications_endpoint cp pageSize pageNumber filterName sortBy
      = listDevPortalApplications_endpoint cp pageSize pageNumber (drop_empty filterName)
          (drop_empty sortBy)"
    by (simp only: listDevPortalApplications_endpoint_def if_truthy_text_drop_empty)
  have 11: "listDevPortalSubscriptions_endpoint cp applicationId apiId pageSize pageNumber status sortBy
      = listDevPortalSubscriptions_endpoint cp (drop_empty applicationId) (drop_empty apiId)
          pageSize pageNumber (drop_empty status) (drop_empty sortBy)"
    by (simp only: listDevPortalSubscriptions_endpoint_def if_truthy_str_drop_empty
        if_truthy_text_drop_empty)
  from 1 2 3 4 5 6 7 8 9 10 11 show ?thesis by (intro conjI)
qed

text \<open>Claim C10 at a concrete input: \<open>listControlPlanes\<close> with the page number 0 and the
  cloud-gateway filter \<open>false\<close> returns an endpoint, which reads back without a
  \<open>page[number]\<close> pair and with the pair \<open>filter[cloud_gateway]=false\<close>.\<close>

theorem C10_falsy_arguments_witness:
  "listControlPlanes_endpoint None (Some (js_int 0)) None None (Some False) None None
     = Inr ''/control-planes?page[size]=10&filter[cloud_gateway]=false''
   \<and> ''page[number]'' \<notin> fst ` set
        (query_pairs ''/control-planes?page[size]=10&filter[cloud_gateway]=false'')
   \<and> (''filter[cloud_gateway]'', ''false'') \<in> set
        (query_pairs ''/control-planes?page[size]=10&filter[cloud_gateway]=false'')"
proof -
  have e: "listControlPlanes_endpoint None (Some (js_int 0)) None None (Some False) None None
     = Inr ''/control-planes?page[size]=10&filter[cloud_gateway]=false''"
    by code_simp
  from C10_falsy_arguments [where pageSize = None and pageNumber = "Some (js_int 0)"
      and filterName = None and filterClusterType = None and filterCloudGateway = "Some False"
      and labels = None and sortBy = None] e
  show ?thesis by simp
qed

text \<open>
  Claim C6. Each of the six dev-portal operations that take a \<open>controlPlaneId\<close> does the
  same for any two values of it: the same request is sent (endpoint, method, headers and
  body) and the same result comes back.
\<close>

theorem C6_controlPlaneId_ignored:
  "listDevPortalApis this cp1 pageSize pageNumber filterName filterPublished sortBy w
     = listDevPortalApis this cp2 pageSize pageNumber filterName filterPublished sortBy w
   \<and> createDevPortalApplication this cp1 appName appDescription w
     = createDevPortalApplication this cp2 appName appDescription w
   \<and> listDevPortalApplications this cp1 pageSize pageNumber filterName sortBy w
     = listDevPortalApplications this cp2 pageSize pageNumber filterName sortBy w
   \<and> createDevPortalSubscription this cp1 apiId applicationId w
     = createDevPortalSubscription this cp2 apiId applicationId w
   \<and> listDevPortalSubscriptions this cp1 applicationIdOpt apiIdOpt pageSize pageNumber status sortBy w
     = listDevPortalSubscriptions this cp2 applicationIdOpt apiIdOpt pageSize pageNumber status sortBy w
   \<and> createDevPortalApiKey this cp1 subscriptionId keyName expiresIn w
     = createDevPortalApiKey this cp2 subscriptionId keyName expiresIn w"
  by (simp add: listDevPortalApis_def listDevPortalApis_endpoint_def
      createDevPortalApplication_def createDevPortalApplication_data_def
      listDevPortalApplications_def listDevPortalApplications_endpoint_def
      createDevPortalSubscription_def createDevPortalSubscription_data_def
      listDevPortalSubscriptions_def listDevPortalSubscriptions_endpoint_def
      createDevPortalApiKey_def createDevPortalApiKey_data_def)

section \<open>The tool catalog\<close>






end
